theory Spec2Isabelle
  imports Main
begin

section \<open>The command-line driver of the add-on builder (aab/cli.py)\<close>

text \<open>
  The theory embeds the functions of \<^verbatim>\<open>aab/cli.py\<close>: \<^verbatim>\<open>validate_cwd\<close>,
  \<^verbatim>\<open>get_qt_versions\<close>, the entry points \<^verbatim>\<open>build\<close>, \<^verbatim>\<open>ui\<close>, \<^verbatim>\<open>manifest\<close>,
  \<^verbatim>\<open>create_dist\<close>, \<^verbatim>\<open>build_dist\<close>, \<^verbatim>\<open>package_dist\<close>, \<^verbatim>\<open>clean\<close>, and \<^verbatim>\<open>main\<close>.
  The collaborators the module imports (\<^verbatim>\<open>Config\<close>, \<^verbatim>\<open>AddonBuilder\<close>, \<^verbatim>\<open>UIBuilder\<close>,
  \<^verbatim>\<open>ManifestUtils\<close>, \<^verbatim>\<open>Git\<close>, \<^verbatim>\<open>clean_repo\<close>) and its constants (\<^verbatim>\<open>PATH_ROOT\<close>,
  \<^verbatim>\<open>PATH_CONFIG\<close>, \<^verbatim>\<open>COPYRIGHT_MSG\<close>) are parameters, gathered in an environment record.
\<close>

subsection \<open>Data\<close>

type_synonym path = "string list"

text \<open>\<^verbatim>\<open>Path.name\<close>: the final component of a path, empty for the empty path.\<close>

definition path_name :: "path \<Rightarrow> string" where
  "path_name p = (if p = [] then [] else last p)"

text \<open>
  Modelled from the spec: the enumeration \<^verbatim>\<open>QtVersion\<close> of \<^verbatim>\<open>aab/ui.py\<close>, the toolkit
  variant with its two members (variantA is \<^verbatim>\<open>qt5\<close>, variantB is \<^verbatim>\<open>qt6\<close>, the two
  members \<^verbatim>\<open>cli.py\<close> names).
\<close>

datatype QtVersion = qt5 | qt6

text \<open>Exceptions of the Python program, as values.\<close>

datatype error =
    KeyError string
  | AttributeError string
  | SystemExit nat
  | Raised string

text \<open>The Python values the entry points return.\<close>

datatype pyval = PyNone | PyBool bool

text \<open>
  The add-on properties that \<^verbatim>\<open>Config()\<close> loads; \<^verbatim>\<open>cli.py\<close> reads the keys
  \<^verbatim>\<open>targets\<close> and \<^verbatim>\<open>module_name\<close>.
\<close>

record config =
  cfg_targets :: "string list"
  cfg_module_name :: string

text \<open>The sub-command that \<^verbatim>\<open>set_defaults(func=...)\<close> binds; \<^verbatim>\<open>Usage\<close> is the parser's default.\<close>

datatype command = Build | Ui | Manifest | Clean | Create_dist | Build_dist | Package_dist | Usage

text \<open>
  The \<^verbatim>\<open>argparse.Namespace\<close>. \<^verbatim>\<open>args_target\<close> and \<^verbatim>\<open>args_dist\<close> are \<open>None\<close> when the
  sub-command's parser does not define the attribute (\<^verbatim>\<open>hasattr\<close> is false);
  \<^verbatim>\<open>args_version\<close> is the optional positional, \<open>None\<close> being Python's \<^verbatim>\<open>None\<close>.
\<close>

record args =
  args_func :: command
  args_verbose :: bool
  args_target :: "string option"
  args_dist :: "string option"
  args_version :: "string option"

subsection \<open>Target expansion\<close>

text \<open>\<^verbatim>\<open>QtVersion[key]\<close>: lookup of an enumeration member by name, \<^verbatim>\<open>KeyError\<close> otherwise.\<close>

definition QtVersion_getitem :: "string \<Rightarrow> error + QtVersion" where
  "QtVersion_getitem key =
     (if key = ''qt5'' then Inr qt5
      else if key = ''qt6'' then Inr qt6
      else Inl (KeyError key))"

fun QtVersion_name :: "QtVersion \<Rightarrow> string" where
  "QtVersion_name qt5 = ''qt5''"
| "QtVersion_name qt6 = ''qt6''"

text \<open>The list comprehension \<^verbatim>\<open>[QtVersion[key] for key in targets]\<close>: the first bad key raises.\<close>

fun QtVersion_list :: "string list \<Rightarrow> error + QtVersion list" where
  "QtVersion_list [] = Inr []"
| "QtVersion_list (key # keys) =
     (case QtVersion_getitem key of
        Inl e \<Rightarrow> Inl e
      | Inr q \<Rightarrow> (case QtVersion_list keys of Inl e \<Rightarrow> Inl e | Inr qs \<Rightarrow> Inr (q # qs)))"

text \<open>
  \<^verbatim>\<open>get_qt_versions(args)\<close>. The first argument is what \<^verbatim>\<open>Config()\<close> gives when it is
  evaluated (an exception or the properties); the conditional expression evaluates it
  only when the target is \<^verbatim>\<open>all\<close>.
\<close>

definition get_qt_versions :: "error + config \<Rightarrow> args \<Rightarrow> error + QtVersion list" where
  "get_qt_versions cfg a =
     (case args_target a of
        None \<Rightarrow> Inl (AttributeError ''target'')
      | Some t \<Rightarrow>
          (case (if t \<noteq> ''all'' then Inr [t]
                 else (case cfg of Inl e \<Rightarrow> Inl e | Inr c \<Rightarrow> Inr (cfg_targets c))) of
             Inl e \<Rightarrow> Inl e
           | Inr tgts \<Rightarrow>
               if ''anki21'' \<in> set tgts then Inr [qt5, qt6]
               else QtVersion_list tgts))"

subsection \<open>Effects\<close>

text \<open>
  A call of a collaborator's method. \<^verbatim>\<open>cli.py\<close> constructs the builder object and calls
  one method of it per task; what the method does is not code of this module.
\<close>

datatype 'b call =
    Builder_build 'b "QtVersion list" string
  | Builder_create_dist 'b
  | Builder_build_dist 'b "QtVersion list" string
  | Builder_package_dist 'b "QtVersion list" string
  | UIBuilder_build path QtVersion
  | UIBuilder_create_qt_shim path
  | Generate_and_write_manifest config string string path
  | Clean_repo
  | Print_usage

text \<open>What a run does, in order: \<^verbatim>\<open>print\<close>, \<^verbatim>\<open>logging.info\<close>, a collaborator call.\<close>

datatype 'b event = Stdout string | Info string | Call "'b call"

text \<open>
  The state a run threads: the events so far, the files on disk (of a type the
  collaborators choose), and the level \<^verbatim>\<open>logging.basicConfig\<close> has set.
\<close>

record ('b, 'd) world =
  trace :: "'b event list"
  disk :: 'd
  log_level :: "nat option"

text \<open>
  The imports of \<^verbatim>\<open>cli.py\<close>. \<^verbatim>\<open>Config\<close> is the result of \<^verbatim>\<open>Config()\<close>, a read-only input
  of the run; \<^verbatim>\<open>Git_parse_version\<close> is \<^verbatim>\<open>Git().parse_version\<close>; \<^verbatim>\<open>AddonBuilder\<close> is the
  constructor, which may raise; \<^verbatim>\<open>run_call\<close> is what a collaborator call does to the disk
  and what it returns or raises; \<^verbatim>\<open>path_exists\<close> is \<^verbatim>\<open>Path.exists\<close> at start-up.
\<close>

record ('b, 'd) env =
  COPYRIGHT_MSG :: string
  PATH_ROOT :: path
  PATH_CONFIG :: path
  path_exists :: "path \<Rightarrow> bool"
  Config :: "error + config"
  Git_parse_version :: "string option \<Rightarrow> error + string"
  AddonBuilder :: "string option \<Rightarrow> error + 'b"
  run_call :: "'b call \<Rightarrow> 'd \<Rightarrow> (error + pyval) \<times> 'd"

text \<open>
  Modelled from the spec: the constant \<^verbatim>\<open>DIST_TYPES\<close> of \<^verbatim>\<open>aab/__init__.py\<close>, the full
  channel set (local, hosted) in its fixed order, under the names the parser's
  \<^verbatim>\<open>--dist\<close> choices give the two channels.
\<close>

definition DIST_TYPES :: "string list" where
  "DIST_TYPES = [''local'', ''ankiweb'']"

definition py_print :: "string \<Rightarrow> ('b, 'd) world \<Rightarrow> ('b, 'd) world" where
  "py_print s w = w\<lparr>trace := trace w @ [Stdout s]\<rparr>"

definition logging_info :: "string \<Rightarrow> ('b, 'd) world \<Rightarrow> ('b, 'd) world" where
  "logging_info s w = w\<lparr>trace := trace w @ [Info s]\<rparr>"

text \<open>A collaborator call: it is recorded whether it returns or raises.\<close>

definition invoke ::
  "('b, 'd) env \<Rightarrow> 'b call \<Rightarrow> ('b, 'd) world \<Rightarrow> (error + pyval) \<times> ('b, 'd) world" where
  "invoke env c w =
     (case run_call env c (disk w) of
        (r, d') \<Rightarrow> (r, w\<lparr>trace := trace w @ [Call c], disk := d'\<rparr>))"

subsection \<open>Formatting\<close>

definition digit_char :: "nat \<Rightarrow> char" where
  "digit_char d = ''0123456789'' ! (d mod 10)"

text \<open>\<^verbatim>\<open>%s\<close> of a non-negative \<^verbatim>\<open>int\<close>: its decimal digits.\<close>

function str_nat :: "nat \<Rightarrow> string" where
  "str_nat n = (if n < 10 then [digit_char n] else str_nat (n div 10) @ [digit_char (n mod 10)])"
  by pat_completeness auto
termination
  by (relation "measure (\<lambda>n. n)") auto

declare str_nat.simps [simp del]

definition build_task_msg :: "nat \<Rightarrow> nat \<Rightarrow> string" where
  "build_task_msg cnt tot =
     CHR 0x0A # ''=== Build task '' @ str_nat cnt @ ''/'' @ str_nat tot @ '' ===''"

definition ui_task_msg :: "nat \<Rightarrow> nat \<Rightarrow> string" where
  "ui_task_msg cnt tot = build_task_msg cnt tot @ [CHR 0x0A]"

subsection \<open>Checks\<close>

definition not_found_msg :: "path \<Rightarrow> string" where
  "not_found_msg p =
     ''Error: '' @ path_name p @ '' not found. Please run this script from the project root.''"

text \<open>The loop of \<^verbatim>\<open>validate_cwd\<close> over the required paths.\<close>

fun validate_paths :: "('b, 'd) env \<Rightarrow> path list \<Rightarrow> ('b, 'd) world \<Rightarrow> bool \<times> ('b, 'd) world" where
  "validate_paths env [] w = (True, w)"
| "validate_paths env (p # ps) w =
     (if \<not> path_exists env p then (False, py_print (not_found_msg p) w)
      else validate_paths env ps w)"

definition validate_cwd :: "('b, 'd) env \<Rightarrow> ('b, 'd) world \<Rightarrow> bool \<times> ('b, 'd) world" where
  "validate_cwd env w = validate_paths env [PATH_ROOT env @ [''src''], PATH_CONFIG env] w"

subsection \<open>Entry points\<close>

text \<open>The expression \<^verbatim>\<open>[args.dist] if args.dist != "all" else DIST_TYPES\<close>.\<close>

definition get_dists :: "args \<Rightarrow> error + string list" where
  "get_dists a =
     (case args_dist a of
        None \<Rightarrow> Inl (AttributeError ''dist'')
      | Some d \<Rightarrow> Inr (if d \<noteq> ''all'' then [d] else DIST_TYPES))"

text \<open>
  The counting loop that \<^verbatim>\<open>build\<close>, \<^verbatim>\<open>ui\<close>, \<^verbatim>\<open>build_dist\<close> and \<^verbatim>\<open>package_dist\<close> each
  write out: log the task line, call the method the entry point names (\<open>mk x\<close>) on the
  item, add one to \<^verbatim>\<open>cnt\<close>. An exception of the call leaves the loop and the function.
\<close>

fun task_loop ::
  "('b, 'd) env \<Rightarrow> (nat \<Rightarrow> nat \<Rightarrow> string) \<Rightarrow> ('a \<Rightarrow> 'b call) \<Rightarrow> nat \<Rightarrow> nat \<Rightarrow> 'a list \<Rightarrow>
   ('b, 'd) world \<Rightarrow> (error + pyval) \<times> ('b, 'd) world" where
  "task_loop env msg mk cnt tot [] w = (Inr PyNone, w)"
| "task_loop env msg mk cnt tot (x # xs) w =
     (case invoke env (mk x) (logging_info (msg cnt tot) w) of
        (Inl e, w') \<Rightarrow> (Inl e, w')
      | (Inr v, w') \<Rightarrow> task_loop env msg mk (cnt + 1) tot xs w')"

definition build ::
  "('b, 'd) env \<Rightarrow> args \<Rightarrow> ('b, 'd) world \<Rightarrow> (error + pyval) \<times> ('b, 'd) world" where
  "build env a w =
     (case get_qt_versions (Config env) a of
        Inl e \<Rightarrow> (Inl e, w)
      | Inr qt_versions \<Rightarrow>
          (case get_dists a of
             Inl e \<Rightarrow> (Inl e, w)
           | Inr dists \<Rightarrow>
               (case AddonBuilder env (args_version a) of
                  Inl e \<Rightarrow> (Inl e, w)
                | Inr builder \<Rightarrow>
                    task_loop env build_task_msg (Builder_build builder qt_versions)
                      1 (length dists) dists w)))"

text \<open>
  \<^verbatim>\<open>ui\<close>. The builder object is \<^verbatim>\<open>UIBuilder(root=PATH_ROOT)\<close>; its calls carry the root.
\<close>

definition ui ::
  "('b, 'd) env \<Rightarrow> args \<Rightarrow> ('b, 'd) world \<Rightarrow> (error + pyval) \<times> ('b, 'd) world" where
  "ui env a w =
     (case get_qt_versions (Config env) a of
        Inl e \<Rightarrow> (Inl e, w)
      | Inr qt_versions \<Rightarrow>
          (case task_loop env ui_task_msg (UIBuilder_build (PATH_ROOT env))
                  1 (length qt_versions) qt_versions w of
             (Inl e, w1) \<Rightarrow> (Inl e, w1)
           | (Inr v, w1) \<Rightarrow>
               (case invoke env (UIBuilder_create_qt_shim (PATH_ROOT env))
                       (logging_info (CHR 0x0A # ''=== Writing Qt compatibility shim ==='') w1) of
                  (Inl e, w2) \<Rightarrow> (Inl e, w2)
                | (Inr v', w2) \<Rightarrow> (Inr PyNone, logging_info ''Done.'' w2))))"

definition all_not_supported_msg :: string where
  "all_not_supported_msg =
     [CHR 0x27] @ ''all'' @ [CHR 0x27] @
     '' is not supported as a dist_type value when building the manifest.''"

definition manifest ::
  "('b, 'd) env \<Rightarrow> args \<Rightarrow> ('b, 'd) world \<Rightarrow> (error + pyval) \<times> ('b, 'd) world" where
  "manifest env a w =
     (case Git_parse_version env (args_version a) of
        Inl e \<Rightarrow> (Inl e, w)
      | Inr version \<Rightarrow>
          (case Config env of
             Inl e \<Rightarrow> (Inl e, w)
           | Inr addon_properties \<Rightarrow>
               (case args_dist a of
                  None \<Rightarrow> (Inl (AttributeError ''dist''), w)
                | Some dist_type \<Rightarrow>
                    if dist_type = ''all''
                    then (Inr (PyBool False), py_print all_not_supported_msg w)
                    else
                      (case invoke env
                              (Generate_and_write_manifest addon_properties version dist_type
                                 (PATH_ROOT env @ [''src''] @ [cfg_module_name addon_properties])) w of
                         (Inl e, w') \<Rightarrow> (Inl e, w')
                       | (Inr v, w') \<Rightarrow> (Inr PyNone, w')))))"

definition create_dist ::
  "('b, 'd) env \<Rightarrow> args \<Rightarrow> ('b, 'd) world \<Rightarrow> (error + pyval) \<times> ('b, 'd) world" where
  "create_dist env a w =
     (case AddonBuilder env (args_version a) of
        Inl e \<Rightarrow> (Inl e, w)
      | Inr builder \<Rightarrow>
          (case invoke env (Builder_create_dist builder) w of
             (Inl e, w') \<Rightarrow> (Inl e, w')
           | (Inr v, w') \<Rightarrow> (Inr PyNone, w')))"

definition build_dist ::
  "('b, 'd) env \<Rightarrow> args \<Rightarrow> ('b, 'd) world \<Rightarrow> (error + pyval) \<times> ('b, 'd) world" where
  "build_dist env a w =
     (case get_qt_versions (Config env) a of
        Inl e \<Rightarrow> (Inl e, w)
      | Inr qt_versions \<Rightarrow>
          (case get_dists a of
             Inl e \<Rightarrow> (Inl e, w)
           | Inr dists \<Rightarrow>
               (case AddonBuilder env (args_version a) of
                  Inl e \<Rightarrow> (Inl e, w)
                | Inr builder \<Rightarrow>
                    task_loop env build_task_msg (Builder_build_dist builder qt_versions)
                      1 (length dists) dists w)))"

definition package_dist ::
  "('b, 'd) env \<Rightarrow> args \<Rightarrow> ('b, 'd) world \<Rightarrow> (error + pyval) \<times> ('b, 'd) world" where
  "package_dist env a w =
     (case get_qt_versions (Config env) a of
        Inl e \<Rightarrow> (Inl e, w)
      | Inr qt_versions \<Rightarrow>
          (case get_dists a of
             Inl e \<Rightarrow> (Inl e, w)
           | Inr dists \<Rightarrow>
               (case AddonBuilder env (args_version a) of
                  Inl e \<Rightarrow> (Inl e, w)
                | Inr builder \<Rightarrow>
                    task_loop env build_task_msg (Builder_package_dist builder qt_versions)
                      1 (length dists) dists w)))"

definition clean ::
  "('b, 'd) env \<Rightarrow> args \<Rightarrow> ('b, 'd) world \<Rightarrow> (error + pyval) \<times> ('b, 'd) world" where
  "clean env a w = invoke env Clean_repo w"

subsection \<open>Main\<close>

text \<open>\<^verbatim>\<open>args.func(args)\<close>; the parser's default \<^verbatim>\<open>func\<close> prints the usage.\<close>

fun dispatch ::
  "('b, 'd) env \<Rightarrow> command \<Rightarrow> args \<Rightarrow> ('b, 'd) world \<Rightarrow> (error + pyval) \<times> ('b, 'd) world" where
  "dispatch env Build a w = build env a w"
| "dispatch env Ui a w = ui env a w"
| "dispatch env Manifest a w = manifest env a w"
| "dispatch env Clean a w = clean env a w"
| "dispatch env Create_dist a w = create_dist env a w"
| "dispatch env Build_dist a w = build_dist env a w"
| "dispatch env Package_dist a w = package_dist env a w"
| "dispatch env Usage a w = invoke env Print_usage w"

text \<open>
  What \<^verbatim>\<open>parser.parse_args()\<close> does: it leaves the program with a status (a usage error,
  \<^verbatim>\<open>--help\<close>) or returns the namespace.
\<close>

datatype parsed = ParseExit nat | Parsed args

definition deprecation_msg :: string where
  "deprecation_msg =
     ''WARNING: '' @ [CHR 0x27] @ ''anki21'' @ [CHR 0x27] @
     '' is deprecated as a target type. Please use '' @ [CHR 0x27] @ ''all'' @ [CHR 0x27] @
     '' instead if targeting both qt6 and qt5 Anki builds.''"

text \<open>\<^verbatim>\<open>logging.DEBUG\<close> is 10 and \<^verbatim>\<open>logging.INFO\<close> is 20.\<close>

definition set_logging :: "args \<Rightarrow> ('b, 'd) world \<Rightarrow> ('b, 'd) world" where
  "set_logging a w = w\<lparr>log_level := Some (if args_verbose a then 10 else 20)\<rparr>"

text \<open>The section \<^verbatim>\<open>Argument aliases\<close> of \<^verbatim>\<open>main\<close>: the namespace it leaves and what it prints.\<close>

definition argument_aliases :: "args \<Rightarrow> ('b, 'd) world \<Rightarrow> args \<times> ('b, 'd) world" where
  "argument_aliases a w =
     (if args_target a \<noteq> None \<and> args_target a = Some ''anki21''
      then (a\<lparr>args_target := Some ''all''\<rparr>, py_print deprecation_msg w)
      else (a, w))"

text \<open>
  \<^verbatim>\<open>main\<close>, given what \<^verbatim>\<open>parse_args\<close> did. \<^verbatim>\<open>sys.exit(1)\<close> raises \<^verbatim>\<open>SystemExit\<close>; the value
  of \<^verbatim>\<open>args.func(args)\<close> is dropped.
\<close>

definition main ::
  "('b, 'd) env \<Rightarrow> parsed \<Rightarrow> ('b, 'd) world \<Rightarrow> (error + pyval) \<times> ('b, 'd) world" where
  "main env pr w =
     (let w0 = py_print (COPYRIGHT_MSG env) w in
      case pr of
        ParseExit n \<Rightarrow> (Inl (SystemExit n), w0)
      | Parsed a \<Rightarrow>
          (case validate_cwd env w0 of
             (False, w1) \<Rightarrow> (Inl (SystemExit 1), w1)
           | (True, w1) \<Rightarrow>
               (case argument_aliases a (set_logging a w1) of
                  (a', w2) \<Rightarrow>
                    (case dispatch env (args_func a') a' w2 of
                       (Inl e, w3) \<Rightarrow> (Inl e, w3)
                     | (Inr v, w3) \<Rightarrow> (Inr PyNone, w3)))))"

text \<open>The status the process ends with: an uncaught exception other than \<^verbatim>\<open>SystemExit\<close> gives 1.\<close>

fun exit_status :: "error + pyval \<Rightarrow> nat" where
  "exit_status (Inr v) = 0"
| "exit_status (Inl (SystemExit n)) = n"
| "exit_status (Inl e) = 1"

section \<open>Notions the properties are stated with\<close>

text \<open>The collaborator calls of a run, in order.\<close>

fun calls_of :: "'b event list \<Rightarrow> 'b call list" where
  "calls_of [] = []"
| "calls_of (Call c # es) = c # calls_of es"
| "calls_of (e # es) = calls_of es"

text \<open>
  The events of the first \<open>n\<close> tasks of a counting loop over \<open>xs\<close>: task \<open>i\<close> (from 0)
  logs the line with the number \<open>i + 1\<close> and the length of \<open>xs\<close>, then makes its call.
\<close>

definition task_events ::
  "(nat \<Rightarrow> nat \<Rightarrow> string) \<Rightarrow> ('a \<Rightarrow> 'b call) \<Rightarrow> 'a list \<Rightarrow> nat \<Rightarrow> 'b event list" where
  "task_events msg mk xs n =
     concat (map (\<lambda>i. [Info (msg (i + 1) (length xs)), Call (mk (xs ! i))]) [0..<n])"

text \<open>The lines logged in a run, in order.\<close>

fun infos_of :: "'b event list \<Rightarrow> string list" where
  "infos_of [] = []"
| "infos_of (Info s # es) = s # infos_of es"
| "infos_of (e # es) = infos_of es"

text \<open>
  What the collaborator does with a sequence of calls, each made on the disk the one
  before has left: \<open>first_raise\<close> is the first call that raises (its index, its
  exception and the disk it leaves), \<open>None\<close> when every call returns;
  \<open>disk_after\<close> is the disk after all of them.
\<close>

fun first_raise :: "('b, 'd) env \<Rightarrow> 'b call list \<Rightarrow> 'd \<Rightarrow> (nat \<times> error \<times> 'd) option" where
  "first_raise env [] d = None"
| "first_raise env (c # cs) d =
     (case run_call env c d of
        (Inl e, d') \<Rightarrow> Some (0, e, d')
      | (Inr v, d') \<Rightarrow>
          (case first_raise env cs d' of
             None \<Rightarrow> None
           | Some (n, e, d'') \<Rightarrow> Some (Suc n, e, d'')))"

fun disk_after :: "('b, 'd) env \<Rightarrow> 'b call list \<Rightarrow> 'd \<Rightarrow> 'd" where
  "disk_after env [] d = d"
| "disk_after env (c # cs) d = disk_after env cs (snd (run_call env c d))"

text \<open>
  The number of calls of the sequence up to and including the first that raises; all
  of them when none raises.
\<close>

definition calls_until_raise :: "('b, 'd) env \<Rightarrow> 'b call list \<Rightarrow> 'd \<Rightarrow> nat" where
  "calls_until_raise env cs d =
     (case first_raise env cs d of None \<Rightarrow> length cs | Some (n, e, d') \<Rightarrow> Suc n)"

text \<open>The same run after more events: \<open>t\<close> put in front of the trace.\<close>

definition shift :: "'b event list \<Rightarrow> ('b, 'd) world \<Rightarrow> ('b, 'd) world" where
  "shift t w = w\<lparr>trace := t @ trace w\<rparr>"

text \<open>
  The build units (variant, channel) that one call of a builder method covers: each
  variant of the list it is given, with the one channel it is given.
\<close>

fun units_of_call :: "'b call \<Rightarrow> (QtVersion \<times> string) list" where
  "units_of_call (Builder_build b qt_versions disttype) = map (\<lambda>q. (q, disttype)) qt_versions"
| "units_of_call (Builder_build_dist b qt_versions disttype) = map (\<lambda>q. (q, disttype)) qt_versions"
| "units_of_call (Builder_package_dist b qt_versions disttype) = map (\<lambda>q. (q, disttype)) qt_versions"
| "units_of_call c = []"

text \<open>A process that has just started: nothing printed, logging not configured.\<close>

definition fresh :: "'d \<Rightarrow> ('b, 'd) world" where
  "fresh d = \<lparr>trace = [], disk = d, log_level = None\<rparr>"

text \<open>
  The documented external workflow, in the spec's words: \<^verbatim>\<open>create_dist\<close>, \<^verbatim>\<open>build_dist\<close>
  and \<^verbatim>\<open>package_dist\<close> run as three separate processes, each only when the one before
  ended without an exception; nothing but the disk passes from one to the next.
\<close>

definition separate_stage_runs ::
  "('b, 'd) env \<Rightarrow> args \<Rightarrow> 'd \<Rightarrow> (error + pyval) \<times> 'd" where
  "separate_stage_runs env a d =
     (case create_dist env a (fresh d) of
        (Inl e, w1) \<Rightarrow> (Inl e, disk w1)
      | (Inr v1, w1) \<Rightarrow>
          (case build_dist env a (fresh (disk w1)) of
             (Inl e, w2) \<Rightarrow> (Inl e, disk w2)
           | (Inr v2, w2) \<Rightarrow>
               (case package_dist env a (fresh (disk w2)) of
                  (r, w3) \<Rightarrow> (r, disk w3))))"

text \<open>
  Modelled from the spec: the method \<^verbatim>\<open>AddonBuilder.build\<close> of \<^verbatim>\<open>aab/builder.py\<close>, which
  is not in \<^verbatim>\<open>cli.py\<close>. The spec: the convenience build runs all three stages in
  sequence; an error is terminal for the unit. \<open>run\<close> is what the three stage methods do.
\<close>

definition AddonBuilder_build_spec ::
  "('b call \<Rightarrow> 'd \<Rightarrow> (error + pyval) \<times> 'd) \<Rightarrow> 'b \<Rightarrow> QtVersion list \<Rightarrow> string \<Rightarrow> 'd \<Rightarrow>
   (error + pyval) \<times> 'd" where
  "AddonBuilder_build_spec run b qt_versions disttype d =
     (case run (Builder_create_dist b) d of
        (Inl e, d1) \<Rightarrow> (Inl e, d1)
      | (Inr v1, d1) \<Rightarrow>
          (case run (Builder_build_dist b qt_versions disttype) d1 of
             (Inl e, d2) \<Rightarrow> (Inl e, d2)
           | (Inr v2, d2) \<Rightarrow> run (Builder_package_dist b qt_versions disttype) d2))"

text \<open>
  Modelled from the spec: \<^verbatim>\<open>ManifestUtils.generate_and_write_manifest\<close> of
  \<^verbatim>\<open>aab/manifest.py\<close>, which is not in \<^verbatim>\<open>cli.py\<close>. The spec: the manifest is synthesized
  from the properties, the version and the channel (which may fail), and written as a
  file into the directory it is given, overwriting any prior manifest file there. The
  disk is a map from paths to file contents; \<open>synth\<close> is the synthesis and \<open>fname\<close> the
  name of the manifest file.
\<close>

definition write_manifest_spec ::
  "(config \<Rightarrow> string \<Rightarrow> string \<Rightarrow> error + string) \<Rightarrow> string \<Rightarrow>
   config \<Rightarrow> string \<Rightarrow> string \<Rightarrow> path \<Rightarrow> (path \<rightharpoonup> string) \<Rightarrow>
   (error + pyval) \<times> (path \<rightharpoonup> string)" where
  "write_manifest_spec synth fname props version dist_type target_dir fs =
     (case synth props version dist_type of
        Inl e \<Rightarrow> (Inl e, fs)
      | Inr content \<Rightarrow> (Inr PyNone, fs(target_dir @ [fname] \<mapsto> content)))"

text \<open>
  The staged tree. Its place is not a constant of \<^verbatim>\<open>cli.py\<close>; the help texts of
  \<^verbatim>\<open>create_dist\<close>, \<^verbatim>\<open>build_dist\<close> and \<^verbatim>\<open>package_dist\<close> there put it "under build/dist".
\<close>

definition PATH_DIST :: "('b, 'd) env \<Rightarrow> path" where
  "PATH_DIST env = PATH_ROOT env @ [''build'', ''dist'']"

definition is_under :: "path \<Rightarrow> path \<Rightarrow> bool" where
  "is_under dir p = (take (length dir) p = dir)"

section \<open>Example inputs\<close>

definition args0 :: args where
  "args0 = \<lparr>args_func = Build, args_verbose = False, args_target = Some ''all'',
            args_dist = Some ''all'', args_version = None\<rparr>"

definition config0 :: config where
  "config0 = \<lparr>cfg_targets = [''qt5'', ''qt6''], cfg_module_name = ''demo''\<rparr>"

text \<open>A manifest synthesis: the hosted channel needs an id, which \<open>config0\<close> lacks.\<close>

definition demo_synth :: "config \<Rightarrow> string \<Rightarrow> string \<Rightarrow> error + string" where
  "demo_synth props version dist_type =
     (if dist_type = ''ankiweb'' then Inl (Raised ''MissingHostedId'')
      else Inr (cfg_module_name props @ '' '' @ version))"

text \<open>
  Stage methods on a disk of files: \<^verbatim>\<open>create_dist\<close> stages the tree, \<^verbatim>\<open>build_dist\<close> and
  \<^verbatim>\<open>package_dist\<close> need what the stage before left.
\<close>

fun demo_stage :: "string call \<Rightarrow> (path \<rightharpoonup> string) \<Rightarrow> (error + pyval) \<times> (path \<rightharpoonup> string)" where
  "demo_stage (Builder_create_dist b) fs =
     (Inr PyNone, fs([''proj'', ''build'', ''dist'', ''staged''] \<mapsto> b))"
| "demo_stage (Builder_build_dist b qt_versions disttype) fs =
     (case fs [''proj'', ''build'', ''dist'', ''staged''] of
        None \<Rightarrow> (Inl (Raised ''NotStaged''), fs)
      | Some v \<Rightarrow> (Inr PyNone, fs([''proj'', ''build'', ''dist'', ''built''] \<mapsto> disttype)))"
| "demo_stage (Builder_package_dist b qt_versions disttype) fs =
     (case fs [''proj'', ''build'', ''dist'', ''built''] of
        None \<Rightarrow> (Inl (Raised ''NotStaged''), fs)
      | Some v \<Rightarrow> (Inr PyNone, fs([''proj'', ''build'', disttype] \<mapsto> v)))"
| "demo_stage (Generate_and_write_manifest props version dist_type target_dir) fs =
     write_manifest_spec demo_synth ''manifest.json'' props version dist_type target_dir fs"
| "demo_stage c fs = (Inr PyNone, fs)"

fun demo_run_call :: "string call \<Rightarrow> (path \<rightharpoonup> string) \<Rightarrow> (error + pyval) \<times> (path \<rightharpoonup> string)" where
  "demo_run_call (Builder_build b qt_versions disttype) fs =
     AddonBuilder_build_spec demo_stage b qt_versions disttype fs"
| "demo_run_call c fs = demo_stage c fs"

definition env0 :: "(string, path \<rightharpoonup> string) env" where
  "env0 = \<lparr>COPYRIGHT_MSG = ''Anki Add-on Builder'',
           PATH_ROOT = [''proj''],
           PATH_CONFIG = [''proj'', ''addon.json''],
           path_exists = (\<lambda>p. True),
           Config = Inr config0,
           Git_parse_version = (\<lambda>v. Inr ''1.2.0''),
           AddonBuilder = (\<lambda>v. Inr ''1.2.0''),
           run_call = demo_run_call\<rparr>"

text \<open>The same project with a builder whose methods raise for the local channel.\<close>

fun failing_run_call :: "string call \<Rightarrow> (path \<rightharpoonup> string) \<Rightarrow> (error + pyval) \<times> (path \<rightharpoonup> string)" where
  "failing_run_call (Builder_build b qt_versions disttype) fs =
     (if disttype = ''local'' then (Inl (Raised ''TransformFailed''), fs) else (Inr PyNone, fs))"
| "failing_run_call (Builder_build_dist b qt_versions disttype) fs =
     (if disttype = ''local'' then (Inl (Raised ''TransformFailed''), fs) else (Inr PyNone, fs))"
| "failing_run_call (Builder_package_dist b qt_versions disttype) fs =
     (if disttype = ''local'' then (Inl (Raised ''TransformFailed''), fs) else (Inr PyNone, fs))"
| "failing_run_call c fs = (Inr PyNone, fs)"

definition env_failing :: "(string, path \<rightharpoonup> string) env" where
  "env_failing = env0\<lparr>run_call := failing_run_call\<rparr>"

definition world0 :: "(string, path \<rightharpoonup> string) world" where
  "world0 = \<lparr>trace = [], disk = Map.empty, log_level = None\<rparr>"

text \<open>Further inputs of the examples below.\<close>

text \<open>The project of \<open>env0\<close> without its configuration file.\<close>

definition env_no_config :: "(string, path \<rightharpoonup> string) env" where
  "env_no_config = env0\<lparr>path_exists := (\<lambda>p. p \<noteq> [''proj'', ''addon.json''])\<rparr>"

definition args_alias :: args where
  "args_alias = \<lparr>args_func = Build_dist, args_verbose = False, args_target = Some ''anki21'',
            args_dist = Some ''ankiweb'', args_version = None\<rparr>"

text \<open>The project of \<open>env0\<close> with a configuration that lists the one target \<^verbatim>\<open>qt6\<close>.\<close>

definition env_qt6 :: "(string, path \<rightharpoonup> string) env" where
  "env_qt6 = env0\<lparr>Config := Inr \<lparr>cfg_targets = [''qt6''], cfg_module_name = ''demo''\<rparr>\<rparr>"

definition args_all_build_dist :: args where
  "args_all_build_dist = args0\<lparr>args_func := Build_dist\<rparr>"

definition args_local :: args where
  "args_local = \<lparr>args_func = Build, args_verbose = False, args_target = Some ''all'',
            args_dist = Some ''local'', args_version = Some ''v1.2.0''\<rparr>"

definition args_manifest :: args where
  "args_manifest = \<lparr>args_func = Manifest, args_verbose = False, args_target = None,
            args_dist = Some ''local'', args_version = Some ''v1.2.0''\<rparr>"

definition world_old_manifest :: "(string, path \<rightharpoonup> string) world" where
  "world_old_manifest =
     \<lparr>trace = [], disk = [[''proj'', ''src'', ''demo'', ''manifest.json''] \<mapsto> ''old''],
      log_level = None\<rparr>"

text \<open>What a run leaves behind: its result and the disk.\<close>

definition outcome :: "(error + pyval) \<times> ('b, 'd) world \<Rightarrow> (error + pyval) \<times> 'd" where
  "outcome r = (fst r, disk (snd r))"

section \<open>Verification\<close>

subsection \<open>Properties of target expansion\<close>



lemma QtVersion_list_isr:
  "(\<exists>qs. QtVersion_list keys = Inr qs) = (set keys \<subseteq> {''qt5'', ''qt6''})"
proof (induction keys)
  case Nil
  then show ?case by simp
next
  case (Cons key keys)
  then show ?case
    by (auto simp: QtVersion_getitem_def split: sum.splits if_splits)
qed


subsection \<open>Traces\<close>

lemma calls_of_append: "calls_of (es @ fs) = calls_of es @ calls_of fs"
  by (induction es rule: calls_of.induct) simp_all

lemma shift_py_print: "py_print s (shift t w) = shift t (py_print s w)"
  by (simp add: py_print_def shift_def)

lemma shift_logging_info: "logging_info s (shift t w) = shift t (logging_info s w)"
  by (simp add: logging_info_def shift_def)

lemma shift_invoke:
  "invoke env c (shift t w) = (case invoke env c w of (r, w') \<Rightarrow> (r, shift t w'))"
  by (simp add: invoke_def shift_def split: prod.splits)

lemma shift_task_loop:
  "task_loop env msg mk cnt tot xs (shift t w) =
     (case task_loop env msg mk cnt tot xs w of (r, w') \<Rightarrow> (r, shift t w'))"
proof (induction xs arbitrary: cnt w)
  case Nil
  then show ?case by simp
next
  case (Cons x xs)
  show ?case
    by (simp add: shift_logging_info shift_invoke Cons.IH split: prod.splits sum.splits)
qed

text \<open>What the counting loop appends to the trace, from any value of the counter.\<close>

lemma task_loop_trace_gen:
  "\<exists>n\<le>length xs.
     trace (snd (task_loop env msg mk cnt tot xs w)) =
       trace w @ concat (map (\<lambda>i. [Info (msg (cnt + i) tot), Call (mk (xs ! i))]) [0..<n]) \<and>
     (case fst (task_loop env msg mk cnt tot xs w) of
        Inr v \<Rightarrow> n = length xs \<and> v = PyNone
      | Inl e \<Rightarrow> 0 < n)"
proof (induction xs arbitrary: cnt w)
  case Nil
  then show ?case by simp
next
  case (Cons x xs)
  obtain r w1 where inv: "invoke env (mk x) (logging_info (msg cnt tot) w) = (r, w1)"
    by (cases "invoke env (mk x) (logging_info (msg cnt tot) w)")
  have tr1: "trace w1 = trace w @ [Info (msg cnt tot), Call (mk x)]"
    using inv by (auto simp: invoke_def logging_info_def split: prod.splits)
  show ?case
  proof (cases r)
    case (Inl e)
    have "task_loop env msg mk cnt tot (x # xs) w = (Inl e, w1)"
      using inv Inl by simp
    then show ?thesis
      using tr1 by (intro exI [of _ 1]) simp
  next
    case (Inr v)
    have eq: "task_loop env msg mk cnt tot (x # xs) w = task_loop env msg mk (cnt + 1) tot xs w1"
      using inv Inr by simp
    from Cons.IH [of "cnt + 1" w1] obtain n where n: "n \<le> length xs"
      and t: "trace (snd (task_loop env msg mk (cnt + 1) tot xs w1)) =
         trace w1 @ concat (map (\<lambda>i. [Info (msg (cnt + 1 + i) tot), Call (mk (xs ! i))]) [0..<n])"
      and c: "(case fst (task_loop env msg mk (cnt + 1) tot xs w1) of
        Inr v \<Rightarrow> n = length xs \<and> v = PyNone | Inl e \<Rightarrow> 0 < n)"
      by blast
    have m: "map (\<lambda>i. [Info (msg (cnt + i) tot), Call (mk ((x # xs) ! i))]) [0..<Suc n] =
          [Info (msg cnt tot), Call (mk x)] #
          map (\<lambda>i. [Info (msg (cnt + 1 + i) tot), Call (mk (xs ! i))]) [0..<n]"
      by (simp add: upt_rec [of 0] map_Suc_upt [symmetric] del: upt_Suc)
    show ?thesis
      apply (rule exI [of _ "Suc n"])
      using n t c tr1 unfolding eq m
      by (auto split: sum.splits)
  qed
qed

subsection \<open>Entry points and the trace\<close>

lemma shift_build: "build env a (shift t w) = (case build env a w of (r, w') \<Rightarrow> (r, shift t w'))"
  by (simp add: build_def shift_task_loop split: sum.splits)

lemma shift_build_dist:
  "build_dist env a (shift t w) = (case build_dist env a w of (r, w') \<Rightarrow> (r, shift t w'))"
  by (simp add: build_dist_def shift_task_loop split: sum.splits)

lemma shift_package_dist:
  "package_dist env a (shift t w) = (case package_dist env a w of (r, w') \<Rightarrow> (r, shift t w'))"
  by (simp add: package_dist_def shift_task_loop split: sum.splits)

lemma shift_create_dist:
  "create_dist env a (shift t w) = (case create_dist env a w of (r, w') \<Rightarrow> (r, shift t w'))"
  by (simp add: create_dist_def shift_invoke split: sum.splits prod.splits)

lemma shift_manifest:
  "manifest env a (shift t w) = (case manifest env a w of (r, w') \<Rightarrow> (r, shift t w'))"
  by (simp add: manifest_def shift_invoke shift_py_print split: sum.splits prod.splits option.splits)

lemma shift_ui: "ui env a (shift t w) = (case ui env a w of (r, w') \<Rightarrow> (r, shift t w'))"
  by (simp add: ui_def shift_task_loop shift_invoke shift_logging_info
      split: sum.splits prod.splits)

lemma shift_clean: "clean env a (shift t w) = (case clean env a w of (r, w') \<Rightarrow> (r, shift t w'))"
  by (simp add: clean_def shift_invoke)

lemma shift_dispatch:
  "dispatch env f a (shift t w) = (case dispatch env f a w of (r, w') \<Rightarrow> (r, shift t w'))"
  by (cases f)
    (simp_all add: shift_build shift_ui shift_manifest shift_clean shift_create_dist
      shift_build_dist shift_package_dist shift_invoke)

lemma stdout_invoke:
  "Stdout s \<in> set (trace (snd (invoke env c w))) = (Stdout s \<in> set (trace w))"
  by (simp add: invoke_def split: prod.splits)

lemma stdout_logging_info:
  "Stdout s \<in> set (trace (logging_info m w)) = (Stdout s \<in> set (trace w))"
  by (simp add: logging_info_def)

lemma stdout_task_loop:
  "Stdout s \<in> set (trace (snd (task_loop env msg mk cnt tot xs w))) = (Stdout s \<in> set (trace w))"
proof (induction xs arbitrary: cnt w)
  case Nil
  then show ?case by simp
next
  case (Cons x xs)
  obtain r w1 where inv: "invoke env (mk x) (logging_info (msg cnt tot) w) = (r, w1)"
    by (cases "invoke env (mk x) (logging_info (msg cnt tot) w)")
  have w1: "Stdout s \<in> set (trace w1) = (Stdout s \<in> set (trace w))"
    using stdout_invoke [of s env "mk x" "logging_info (msg cnt tot) w"] inv
    by (simp add: stdout_logging_info)
  show ?case
    using inv w1 Cons.IH [of "cnt + 1" w1] by (cases r) simp_all
qed

lemma stdout_dispatch:
  assumes "Stdout s \<in> set (trace (snd (dispatch env f a w)))"
  shows "Stdout s \<in> set (trace w) \<or> s = all_not_supported_msg"
proof (cases f)
  case Build
  with assms show ?thesis
    by (auto simp: build_def stdout_task_loop split: sum.splits)
next
  case Ui
  show ?thesis
  proof (cases "get_qt_versions (Config env) a")
    case (Inl e)
    with assms Ui show ?thesis by (simp add: ui_def)
  next
    case (Inr qs)
    obtain r w1 where l: "task_loop env ui_task_msg (UIBuilder_build (PATH_ROOT env)) 1 (length qs) qs w = (r, w1)"
      by (cases "task_loop env ui_task_msg (UIBuilder_build (PATH_ROOT env)) 1 (length qs) qs w")
    have w1: "Stdout s \<in> set (trace w1) = (Stdout s \<in> set (trace w))"
      using stdout_task_loop [of s env ui_task_msg "UIBuilder_build (PATH_ROOT env)" 1 "length qs" qs w] l
      by simp
    obtain r2 w2 where i: "invoke env (UIBuilder_create_qt_shim (PATH_ROOT env))
        (logging_info (CHR 0x0A # ''=== Writing Qt compatibility shim ==='') w1) = (r2, w2)"
      by (cases "invoke env (UIBuilder_create_qt_shim (PATH_ROOT env))
        (logging_info (CHR 0x0A # ''=== Writing Qt compatibility shim ==='') w1)")
    have w2: "Stdout s \<in> set (trace w2) = (Stdout s \<in> set (trace w))"
      using stdout_invoke [of s env "UIBuilder_create_qt_shim (PATH_ROOT env)"
          "logging_info (CHR 0x0A # ''=== Writing Qt compatibility shim ==='') w1"] i w1
      by (simp add: stdout_logging_info)
    from assms Ui Inr l i w1 w2 show ?thesis
      by (cases r; cases r2) (simp_all add: ui_def stdout_logging_info)
  qed
next
  case Manifest
  with assms show ?thesis
    by (auto simp: manifest_def py_print_def invoke_def split: sum.splits prod.splits option.splits if_splits)
next
  case Clean
  with assms show ?thesis by (simp add: clean_def stdout_invoke)
next
  case Create_dist
  with assms show ?thesis
    by (auto simp: create_dist_def invoke_def split: sum.splits prod.splits)
next
  case Build_dist
  with assms show ?thesis
    by (auto simp: build_dist_def stdout_task_loop split: sum.splits)
next
  case Package_dist
  with assms show ?thesis
    by (auto simp: package_dist_def stdout_task_loop split: sum.splits)
next
  case Usage
  with assms show ?thesis by (simp add: stdout_invoke)
qed

lemma deprecation_msg_neq: "deprecation_msg \<noteq> all_not_supported_msg"
  by (simp add: deprecation_msg_def all_not_supported_msg_def)

lemma validate_cwd_ok:
  "path_exists env (PATH_ROOT env @ [''src'']) \<Longrightarrow> path_exists env (PATH_CONFIG env) \<Longrightarrow>
   validate_cwd env w = (True, w)"
  by (simp add: validate_cwd_def)

lemma validate_cwd_missing:
  "\<not> path_exists env (PATH_ROOT env @ [''src'']) \<or> \<not> path_exists env (PATH_CONFIG env) \<Longrightarrow>
   validate_cwd env w =
     (False, py_print (''Error: '' @
        (if \<not> path_exists env (PATH_ROOT env @ [''src'']) then ''src''
         else path_name (PATH_CONFIG env)) @
        '' not found. Please run this script from the project root.'') w)"
  by (auto simp: validate_cwd_def not_found_msg_def path_name_def)

lemma main_valid:
  assumes "path_exists env (PATH_ROOT env @ [''src''])" and "path_exists env (PATH_CONFIG env)"
  shows "main env (Parsed a) w =
     (case argument_aliases a (set_logging a (py_print (COPYRIGHT_MSG env) w)) of
        (a', w2) \<Rightarrow>
          (case dispatch env (args_func a') a' w2 of
             (Inl e, w3) \<Rightarrow> (Inl e, w3)
           | (Inr v, w3) \<Rightarrow> (Inr PyNone, w3)))"
  by (simp add: main_def Let_def validate_cwd_ok [OF assms])

lemma env0_fields:
  "COPYRIGHT_MSG env0 = ''Anki Add-on Builder''"
  "PATH_ROOT env0 = [''proj'']"
  "PATH_CONFIG env0 = [''proj'', ''addon.json'']"
  "path_exists env0 p"
  "Config env0 = Inr config0"
  "Git_parse_version env0 v = Inr ''1.2.0''"
  "AddonBuilder env0 v = Inr ''1.2.0''"
  "run_call env0 = demo_run_call"
  by (simp_all add: env0_def)

lemma get_qt_versions_config0:
  "args_target a = Some ''all'' \<Longrightarrow> get_qt_versions (Inr config0) a = Inr [qt5, qt6]"
  by (simp add: get_qt_versions_def config0_def QtVersion_getitem_def)

lemma task_loop_events:
  "\<exists>n\<le>length xs.
     trace (snd (task_loop env msg mk 1 (length xs) xs w)) = trace w @ task_events msg mk xs n \<and>
     (case fst (task_loop env msg mk 1 (length xs) xs w) of
        Inr v \<Rightarrow> n = length xs \<and> v = PyNone
      | Inl e \<Rightarrow> 0 < n)"
  using task_loop_trace_gen [of xs env msg mk 1 "length xs" w]
  by (simp add: task_events_def add.commute)

lemma task_events_Suc:
  "task_events msg mk xs (Suc n) =
     task_events msg mk xs n @ [Info (msg (n + 1) (length xs)), Call (mk (xs ! n))]"
  by (simp add: task_events_def)

lemma calls_of_task_events:
  "n \<le> length xs \<Longrightarrow> calls_of (task_events msg mk xs n) = map mk (take n xs)"
proof (induction n)
  case 0
  then show ?case by (simp add: task_events_def)
next
  case (Suc n)
  then show ?case
    by (simp add: task_events_Suc calls_of_append take_Suc_conv_app_nth)
qed

lemma env_failing_fields:
  "Config env_failing = Inr config0"
  "AddonBuilder env_failing v = Inr ''1.2.0''"
  "run_call env_failing = failing_run_call"
  by (simp_all add: env_failing_def env0_def)

lemma get_dists_all: "args_dist a = Some ''all'' \<Longrightarrow> get_dists a = Inr [''local'', ''ankiweb'']"
  by (simp add: get_dists_def DIST_TYPES_def)

lemma build_task_msg_1_2:
  "build_task_msg (Suc 0) (Suc (Suc 0)) = CHR 0x0A # ''=== Build task 1/2 ===''"
  by (simp add: build_task_msg_def str_nat.simps digit_char_def)

lemma build_task_msg_2_2:
  "build_task_msg (Suc (Suc 0)) (Suc (Suc 0)) = CHR 0x0A # ''=== Build task 2/2 ===''"
  by (simp add: build_task_msg_def str_nat.simps digit_char_def)

lemma build_env0_all:
  "build env0 args0 world0 =
     (Inr PyNone,
      \<lparr>trace = [Info (CHR 0x0A # ''=== Build task 1/2 ===''),
                 Call (Builder_build ''1.2.0'' [qt5, qt6] ''local''),
                 Info (CHR 0x0A # ''=== Build task 2/2 ===''),
                 Call (Builder_build ''1.2.0'' [qt5, qt6] ''ankiweb'')],
       disk = [[''proj'', ''build'', ''dist'', ''staged''] \<mapsto> ''1.2.0'',
               [''proj'', ''build'', ''dist'', ''built''] \<mapsto> ''local'',
               [''proj'', ''build'', ''local''] \<mapsto> ''local'',
               [''proj'', ''build'', ''dist'', ''staged''] \<mapsto> ''1.2.0'',
               [''proj'', ''build'', ''dist'', ''built''] \<mapsto> ''ankiweb'',
               [''proj'', ''build'', ''ankiweb''] \<mapsto> ''ankiweb''],
       log_level = None\<rparr>)"
  by (simp add: build_def env0_fields get_qt_versions_config0 get_dists_all
      args0_def world0_def logging_info_def invoke_def build_task_msg_1_2 build_task_msg_2_2
      AddonBuilder_build_spec_def)

lemma env_qt6_fields:
  "Config env_qt6 = Inr \<lparr>cfg_targets = [''qt6''], cfg_module_name = ''demo''\<rparr>"
  "AddonBuilder env_qt6 v = Inr ''1.2.0''"
  "run_call env_qt6 = demo_run_call"
  by (simp_all add: env_qt6_def env0_def)

lemma get_dists_one: "args_dist a = Some dt \<Longrightarrow> dt \<noteq> ''all'' \<Longrightarrow> get_dists a = Inr [dt]"
  by (simp add: get_dists_def)

lemma task_loop_one:
  "task_loop env msg mk cnt tot [x] w =
     (case invoke env (mk x) (logging_info (msg cnt tot) w) of
        (Inl e, w') \<Rightarrow> (Inl e, w')
      | (Inr v, w') \<Rightarrow> (Inr PyNone, w'))"
  by (simp split: prod.splits sum.splits)

lemma invoke_result:
  "invoke env c w = (fst (run_call env c (disk w)),
     w\<lparr>trace := trace w @ [Call c], disk := snd (run_call env c (disk w))\<rparr>)"
  by (simp add: invoke_def split: prod.splits)

lemma env0_build_spec:
  "\<forall>b qvs dt. run_call env0 (Builder_build b qvs dt) =
             AddonBuilder_build_spec (run_call env0) b qvs dt"
  by (simp add: env0_fields AddonBuilder_build_spec_def fun_eq_iff)

lemma env0_manifest_spec:
  "\<forall>props v dt dir. run_call env0 (Generate_and_write_manifest props v dt dir) =
             write_manifest_spec demo_synth ''manifest.json'' props v dt dir"
  by (simp add: env0_fields fun_eq_iff)

lemma outcome_invoke:
  "disk w1 = disk w2 \<Longrightarrow> outcome (invoke env c w1) = outcome (invoke env c w2)"
  by (simp add: outcome_def invoke_result)

lemma outcome_task_loop:
  "disk w1 = disk w2 \<Longrightarrow>
   outcome (task_loop env msg mk cnt tot xs w1) = outcome (task_loop env msg mk cnt tot xs w2)"
proof (induction xs arbitrary: cnt w1 w2)
  case Nil
  then show ?case by (simp add: outcome_def)
next
  case (Cons x xs)
  obtain r1 u1 where i1: "invoke env (mk x) (logging_info (msg cnt tot) w1) = (r1, u1)"
    by (cases "invoke env (mk x) (logging_info (msg cnt tot) w1)")
  obtain r2 u2 where i2: "invoke env (mk x) (logging_info (msg cnt tot) w2) = (r2, u2)"
    by (cases "invoke env (mk x) (logging_info (msg cnt tot) w2)")
  have "disk (logging_info (msg cnt tot) w1) = disk (logging_info (msg cnt tot) w2)"
    using Cons.prems by (simp add: logging_info_def)
  from outcome_invoke [OF this, of env "mk x"] i1 i2
  have e: "r2 = r1" "disk u1 = disk u2" by (simp_all add: outcome_def)
  show ?case
  proof (cases r1)
    case (Inl err)
    have "task_loop env msg mk cnt tot (x # xs) w1 = (Inl err, u1)"
      using i1 Inl by simp
    moreover have "task_loop env msg mk cnt tot (x # xs) w2 = (Inl err, u2)"
      using i2 e(1) Inl by simp
    ultimately show ?thesis using e(2) by (simp add: outcome_def)
  next
    case (Inr v)
    have "task_loop env msg mk cnt tot (x # xs) w1 = task_loop env msg mk (cnt + 1) tot xs u1"
      using i1 Inr by simp
    moreover have "task_loop env msg mk cnt tot (x # xs) w2 = task_loop env msg mk (cnt + 1) tot xs u2"
      using i2 e(1) Inr by simp
    ultimately show ?thesis using Cons.IH [OF e(2), of "cnt + 1"] by simp
  qed
qed

lemma outcome_create_dist:
  assumes "disk w1 = disk w2"
  shows "outcome (create_dist env a w1) = outcome (create_dist env a w2)"
proof (cases "AddonBuilder env (args_version a)")
  case (Inl e)
  with assms show ?thesis by (simp add: create_dist_def outcome_def)
next
  case (Inr b)
  with assms show ?thesis
    by (cases "fst (run_call env (Builder_create_dist b) (disk w2))")
      (simp_all add: create_dist_def invoke_result outcome_def)
qed

lemma outcome_build_dist:
  assumes "disk w1 = disk w2"
  shows "outcome (build_dist env a w1) = outcome (build_dist env a w2)"
proof (cases "get_qt_versions (Config env) a")
  case (Inl e)
  with assms show ?thesis by (simp add: build_dist_def outcome_def)
next
  case q: (Inr qvs)
  show ?thesis
  proof (cases "get_dists a")
    case (Inl e)
    with q assms show ?thesis by (simp add: build_dist_def outcome_def)
  next
    case d: (Inr dists)
    show ?thesis
    proof (cases "AddonBuilder env (args_version a)")
      case (Inl e)
      with q d assms show ?thesis by (simp add: build_dist_def outcome_def)
    next
      case (Inr b)
      with q d outcome_task_loop [OF assms] show ?thesis by (simp add: build_dist_def)
    qed
  qed
qed

lemma outcome_package_dist:
  assumes "disk w1 = disk w2"
  shows "outcome (package_dist env a w1) = outcome (package_dist env a w2)"
proof (cases "get_qt_versions (Config env) a")
  case (Inl e)
  with assms show ?thesis by (simp add: package_dist_def outcome_def)
next
  case q: (Inr qvs)
  show ?thesis
  proof (cases "get_dists a")
    case (Inl e)
    with q assms show ?thesis by (simp add: package_dist_def outcome_def)
  next
    case d: (Inr dists)
    show ?thesis
    proof (cases "AddonBuilder env (args_version a)")
      case (Inl e)
      with q d assms show ?thesis by (simp add: package_dist_def outcome_def)
    next
      case (Inr b)
      with q d outcome_task_loop [OF assms] show ?thesis by (simp add: package_dist_def)
    qed
  qed
qed

lemma disk_fresh: "disk (fresh d) = d"
  by (simp add: fresh_def)

lemma infos_of_append: "infos_of (es @ fs) = infos_of es @ infos_of fs"
  by (induction es rule: infos_of.induct) simp_all

lemma infos_of_task_events:
  "infos_of (task_events msg mk xs n) = map (\<lambda>i. msg (i + 1) (length xs)) [0..<n]"
proof (induction n)
  case 0
  then show ?case by (simp add: task_events_def)
next
  case (Suc n)
  then show ?case by (simp add: task_events_Suc infos_of_append)
qed

lemma first_raise_bound: "first_raise env cs d = Some (n, e, d') \<Longrightarrow> n < length cs"
proof (induction cs arbitrary: d n)
  case Nil
  then show ?case by simp
next
  case (Cons c cs)
  obtain r d1 where s: "run_call env c d = (r, d1)" by (cases "run_call env c d")
  show ?case
  proof (cases r)
    case (Inl e1)
    with s Cons.prems show ?thesis by simp
  next
    case (Inr v)
    with s Cons.prems obtain m where "first_raise env cs d1 = Some (m, e, d')" "n = Suc m"
      by (auto split: option.splits)
    with Cons.IH [of d1 m] show ?thesis by simp
  qed
qed

lemma calls_until_raise_bounds:
  "calls_until_raise env cs d \<le> length cs \<and> (cs \<noteq> [] \<longrightarrow> 0 < calls_until_raise env cs d)"
proof (cases "first_raise env cs d")
  case None
  then show ?thesis by (simp add: calls_until_raise_def)
next
  case (Some t)
  obtain n e d' where t: "t = (n, e, d')" by (cases t)
  from Some t first_raise_bound [of env cs d n e d'] show ?thesis
    by (simp add: calls_until_raise_def)
qed

lemma get_dists_nonempty: "get_dists a = Inr dists \<Longrightarrow> dists \<noteq> []"
  by (auto simp: get_dists_def DIST_TYPES_def split: option.splits if_splits)

text \<open>The counting loop, exactly: its result, its trace and the disk it leaves.\<close>

lemma task_loop_exact_gen:
  "task_loop env msg mk cnt tot xs w =
     (case first_raise env (map mk xs) (disk w) of
        None \<Rightarrow>
          (Inr PyNone,
           w\<lparr>trace := trace w @
                concat (map (\<lambda>i. [Info (msg (cnt + i) tot), Call (mk (xs ! i))]) [0..<length xs]),
             disk := disk_after env (map mk xs) (disk w)\<rparr>)
      | Some (n, e, d') \<Rightarrow>
          (Inl e,
           w\<lparr>trace := trace w @
                concat (map (\<lambda>i. [Info (msg (cnt + i) tot), Call (mk (xs ! i))]) [0..<Suc n]),
             disk := d'\<rparr>))"
proof (induction xs arbitrary: cnt w)
  case Nil
  then show ?case by simp
next
  case (Cons x xs)
  obtain r d1 where s: "run_call env (mk x) (disk w) = (r, d1)"
    by (cases "run_call env (mk x) (disk w)")
  define w1 where "w1 = w\<lparr>trace := trace w @ [Info (msg cnt tot), Call (mk x)], disk := d1\<rparr>"
  have inv: "invoke env (mk x) (logging_info (msg cnt tot) w) = (r, w1)"
    using s by (simp add: invoke_def logging_info_def w1_def)
  have m: "map (\<lambda>i. [Info (msg (cnt + i) tot), Call (mk ((x # xs) ! i))]) [0..<Suc k] =
        [Info (msg cnt tot), Call (mk x)] #
        map (\<lambda>i. [Info (msg (cnt + 1 + i) tot), Call (mk (xs ! i))]) [0..<k]" for k
    by (simp add: upt_rec [of 0] map_Suc_upt [symmetric] del: upt_Suc)
  have c: "concat (map (\<lambda>i. [Info (msg (cnt + i) tot), Call (mk ((x # xs) ! i))]) [0..<Suc k]) =
        [Info (msg cnt tot), Call (mk x)] @
        concat (map (\<lambda>i. [Info (msg (cnt + 1 + i) tot), Call (mk (xs ! i))]) [0..<k])" for k
    unfolding m by simp
  show ?case
  proof (cases r)
    case (Inl e)
    have "task_loop env msg mk cnt tot (x # xs) w = (Inl e, w1)"
      using inv Inl by simp
    moreover have "first_raise env (map mk (x # xs)) (disk w) = Some (0, e, d1)"
      using s Inl by simp
    ultimately show ?thesis by (simp add: w1_def)
  next
    case (Inr v)
    have eq: "task_loop env msg mk cnt tot (x # xs) w = task_loop env msg mk (cnt + 1) tot xs w1"
      using inv Inr by simp
    have d: "disk w1 = d1" "trace w1 = trace w @ [Info (msg cnt tot), Call (mk x)]"
      by (simp_all add: w1_def)
    show ?thesis
    proof (cases "first_raise env (map mk xs) d1")
      case None
      then have f: "first_raise env (map mk (x # xs)) (disk w) = None"
        using s Inr by simp
      have da: "disk_after env (map mk (x # xs)) (disk w) = disk_after env (map mk xs) d1"
        using s by simp
      have lhs: "task_loop env msg mk cnt tot (x # xs) w =
          (Inr PyNone,
           w1\<lparr>trace := trace w1 @
                concat (map (\<lambda>i. [Info (msg (cnt + 1 + i) tot), Call (mk (xs ! i))]) [0..<length xs]),
              disk := disk_after env (map mk xs) d1\<rparr>)"
        unfolding eq Cons.IH [of "cnt + 1" w1] using None by (simp add: d)
      have w: "w1\<lparr>trace := trace w1 @
                concat (map (\<lambda>i. [Info (msg (cnt + 1 + i) tot), Call (mk (xs ! i))]) [0..<length xs]),
              disk := disk_after env (map mk xs) d1\<rparr> =
           w\<lparr>trace := trace w @
                concat (map (\<lambda>i. [Info (msg (cnt + i) tot), Call (mk ((x # xs) ! i))])
                  [0..<Suc (length xs)]),
             disk := disk_after env (map mk (x # xs)) (disk w)\<rparr>"
        unfolding c da by (simp add: w1_def)
      have l: "[0..<length (x # xs)] = [0..<Suc (length xs)]" by simp
      show ?thesis
        unfolding lhs w f l by simp
    next
      case (Some t)
      obtain n e d' where t: "t = (n, e, d')" by (cases t)
      have f: "first_raise env (map mk (x # xs)) (disk w) = Some (Suc n, e, d')"
        using s Inr Some t by simp
      have lhs: "task_loop env msg mk cnt tot (x # xs) w =
          (Inl e,
           w1\<lparr>trace := trace w1 @
                concat (map (\<lambda>i. [Info (msg (cnt + 1 + i) tot), Call (mk (xs ! i))]) [0..<Suc n]),
              disk := d'\<rparr>)"
        unfolding eq Cons.IH [of "cnt + 1" w1] using Some t by (simp add: d del: upt_Suc)
      have w: "w1\<lparr>trace := trace w1 @
                concat (map (\<lambda>i. [Info (msg (cnt + 1 + i) tot), Call (mk (xs ! i))]) [0..<Suc n]),
              disk := d'\<rparr> =
           w\<lparr>trace := trace w @
                concat (map (\<lambda>i. [Info (msg (cnt + i) tot), Call (mk ((x # xs) ! i))])
                  [0..<Suc (Suc n)]),
             disk := d'\<rparr>"
        unfolding c [of "Suc n"] by (simp add: w1_def del: upt_Suc)
      show ?thesis
        unfolding lhs w f by simp
    qed
  qed
qed

lemma task_loop_exact:
  "task_loop env msg mk 1 (length xs) xs w =
     (case first_raise env (map mk xs) (disk w) of
        None \<Rightarrow>
          (Inr PyNone,
           w\<lparr>trace := trace w @ task_events msg mk xs (length xs),
             disk := disk_after env (map mk xs) (disk w)\<rparr>)
      | Some (n, e, d') \<Rightarrow>
          (Inl e, w\<lparr>trace := trace w @ task_events msg mk xs (Suc n), disk := d'\<rparr>))"
  unfolding task_loop_exact_gen [of env msg mk 1 "length xs" xs w] task_events_def
  by (simp add: add.commute split: option.splits)

lemma task_loop_trace_exact:
  "trace (snd (task_loop env msg mk 1 (length xs) xs w)) =
     trace w @ task_events msg mk xs (calls_until_raise env (map mk xs) (disk w))"
  unfolding task_loop_exact by (simp add: calls_until_raise_def split: option.splits)

lemma task_loop_result_exact:
  "fst (task_loop env msg mk 1 (length xs) xs w) =
     (case first_raise env (map mk xs) (disk w) of
        None \<Rightarrow> Inr PyNone
      | Some (n, e, d') \<Rightarrow> Inl e)"
  unfolding task_loop_exact by (simp split: option.splits)

lemma first_raise_failing_local:
  "first_raise env_failing
     [Builder_build ''1.2.0'' [qt5, qt6] ''local'', Builder_build ''1.2.0'' [qt5, qt6] ''ankiweb''] Map.empty =
     Some (0, Raised ''TransformFailed'', Map.empty)"
  "first_raise env_failing
     [Builder_build_dist ''1.2.0'' [qt5, qt6] ''local'', Builder_build_dist ''1.2.0'' [qt5, qt6] ''ankiweb''] Map.empty =
     Some (0, Raised ''TransformFailed'', Map.empty)"
  "first_raise env_failing
     [Builder_package_dist ''1.2.0'' [qt5, qt6] ''local'', Builder_package_dist ''1.2.0'' [qt5, qt6] ''ankiweb''] Map.empty =
     Some (0, Raised ''TransformFailed'', Map.empty)"
  by (simp_all add: env_failing_fields)

lemma calls_until_raise_env0_build:
  "calls_until_raise env0 (map (Builder_build ''1.2.0'' [qt5, qt6]) [''local'', ''ankiweb'']) Map.empty = 2"
  by (simp add: calls_until_raise_def env0_fields AddonBuilder_build_spec_def)

subsection \<open>Claims on target expansion\<close>

text \<open>
  C9. When the target selector is the name of a single variant (neither \<^verbatim>\<open>all\<close> nor the
  deprecated alias), \<^verbatim>\<open>get_qt_versions\<close> returns exactly that variant, whatever
  \<^verbatim>\<open>Config()\<close> would give: two configurations, or a configuration that cannot be
  loaded, yield the same list.
\<close>

theorem single_target_ignores_config:
  "args_target a = Some (QtVersion_name q) \<Longrightarrow>
   get_qt_versions cfg a = Inr [q] \<and> get_qt_versions cfg' a = Inr [q]"
  by (cases q) (simp_all add: get_qt_versions_def QtVersion_getitem_def)

theorem single_target_ignores_config_witness:
  "args_target (args0\<lparr>args_target := Some ''qt6''\<rparr>) = Some (QtVersion_name qt6) \<and>
   get_qt_versions (Inr \<lparr>cfg_targets = [''qt5''], cfg_module_name = ''demo''\<rparr>)
     (args0\<lparr>args_target := Some ''qt6''\<rparr>) = Inr [qt6] \<and>
   get_qt_versions (Inl (Raised ''addon.json not found''))
     (args0\<lparr>args_target := Some ''qt6''\<rparr>) = Inr [qt6]"
  using single_target_ignores_config
    [of "args0\<lparr>args_target := Some ''qt6''\<rparr>" qt6
        "Inr \<lparr>cfg_targets = [''qt5''], cfg_module_name = ''demo''\<rparr>"
        "Inl (Raised ''addon.json not found'')"]
  by (simp add: args0_def)




subsection \<open>Claims on the entry points\<close>

text \<open>
  C1, as stated, says that the selector pair (all, all) yields the four units in the order
  (qt5, local), (qt5, ankiweb), (qt6, local), (qt6, ankiweb). \<^verbatim>\<open>build\<close> loops over the
  channels and hands every channel the whole list of variants: with both variants
  configured its two calls cover the units channel by channel, and with a configuration
  that lists only \<^verbatim>\<open>qt6\<close> they cover two units.
\<close>

theorem expand_all_all_counterexample:
  "concat (map units_of_call (calls_of (trace (snd (build env0 args0 world0))))) =
     [(qt5, ''local''), (qt6, ''local''), (qt5, ''ankiweb''), (qt6, ''ankiweb'')] \<and>
   concat (map units_of_call (calls_of (trace (snd (build env0 args0 world0))))) \<noteq>
     [(qt5, ''local''), (qt5, ''ankiweb''), (qt6, ''local''), (qt6, ''ankiweb'')] \<and>
   concat (map units_of_call (calls_of (trace (snd (build env_qt6 args0 world0))))) =
     [(qt6, ''local''), (qt6, ''ankiweb'')]"
proof -
  have 2: "trace (snd (build env_qt6 args0 world0)) =
      [Info (CHR 0x0A # ''=== Build task 1/2 ===''),
       Call (Builder_build ''1.2.0'' [qt6] ''local''),
       Info (CHR 0x0A # ''=== Build task 2/2 ===''),
       Call (Builder_build ''1.2.0'' [qt6] ''ankiweb'')]"
    by (simp add: build_def env_qt6_fields get_qt_versions_def QtVersion_getitem_def get_dists_all
      args0_def world0_def logging_info_def invoke_def build_task_msg_1_2 build_task_msg_2_2
      AddonBuilder_build_spec_def)
  show ?thesis
    by (simp add: build_env0_all 2)
qed

text \<open>
  C1, amended. For the selector pair (all, all) and a configuration whose target list
  names both variants (it contains \<^verbatim>\<open>anki21\<close>, or it is qt5, qt6), the expansion in
  \<^verbatim>\<open>build\<close> is the variant list qt5, qt6 and the channel list local, ankiweb, and a run
  that completes makes exactly two builder calls, in this order: both variants for
  local, then both variants for ankiweb. The four units are so covered in the order
  (qt5, local), (qt6, local), (qt5, ankiweb), (qt6, ankiweb). The sequence is a function
  of the selectors and the configuration alone: it is the same from every world \<open>w\<close>.
\<close>

theorem expand_all_all_by_channel:
  assumes "args_target a = Some ''all''"
      and "args_dist a = Some ''all''"
      and "Config env = Inr c"
      and "''anki21'' \<in> set (cfg_targets c) \<or> cfg_targets c = [''qt5'', ''qt6'']"
      and "AddonBuilder env (args_version a) = Inr b"
      and "fst (build env a w) = Inr v"
  shows "get_qt_versions (Config env) a = Inr [qt5, qt6] \<and>
         get_dists a = Inr [''local'', ''ankiweb''] \<and>
         calls_of (trace (snd (build env a w))) =
           calls_of (trace w) @
           [Builder_build b [qt5, qt6] ''local'', Builder_build b [qt5, qt6] ''ankiweb''] \<and>
         concat (map units_of_call
           [Builder_build b [qt5, qt6] ''local'', Builder_build b [qt5, qt6] ''ankiweb'']) =
           [(qt5, ''local''), (qt6, ''local''), (qt5, ''ankiweb''), (qt6, ''ankiweb'')]"
proof -
  have q: "get_qt_versions (Config env) a = Inr [qt5, qt6]"
    using assms(1,3,4) by (auto simp: get_qt_versions_def QtVersion_getitem_def)
  have d: "get_dists a = Inr [''local'', ''ankiweb'']"
    using assms(2) by (rule get_dists_all)
  have l: "build env a w =
      task_loop env build_task_msg (Builder_build b [qt5, qt6]) 1
        (length [''local'', ''ankiweb'']) [''local'', ''ankiweb''] w"
    using q d assms(5) by (simp add: build_def)
  from task_loop_events [of "[''local'', ''ankiweb'']" env build_task_msg
      "Builder_build b [qt5, qt6]" w]
  obtain n where n: "n \<le> length [''local'', ''ankiweb'']"
    and t: "trace (snd (build env a w)) =
      trace w @ task_events build_task_msg (Builder_build b [qt5, qt6]) [''local'', ''ankiweb''] n"
    and c: "(case fst (build env a w) of Inr v \<Rightarrow> n = length [''local'', ''ankiweb''] \<and> v = PyNone
            | Inl e \<Rightarrow> 0 < n)"
    unfolding l by blast
  from c assms(6) have n2: "n = length [''local'', ''ankiweb'']" by simp
  have "calls_of (trace (snd (build env a w))) =
      calls_of (trace w) @ map (Builder_build b [qt5, qt6]) (take n [''local'', ''ankiweb''])"
    unfolding t using calls_of_task_events [OF n] by (simp add: calls_of_append)
  with n2 have k: "calls_of (trace (snd (build env a w))) =
           calls_of (trace w) @
           [Builder_build b [qt5, qt6] ''local'', Builder_build b [qt5, qt6] ''ankiweb'']"
    by simp
  from q d k show ?thesis by simp
qed

theorem expand_all_all_by_channel_witness:
  "args_target args0 = Some ''all'' \<and> args_dist args0 = Some ''all'' \<and>
   Config env0 = Inr config0 \<and>
   (''anki21'' \<in> set (cfg_targets config0) \<or> cfg_targets config0 = [''qt5'', ''qt6'']) \<and>
   AddonBuilder env0 (args_version args0) = Inr ''1.2.0'' \<and>
   fst (build env0 args0 world0) = Inr PyNone \<and>
   calls_of (trace (snd (build env0 args0 world0))) =
     [Builder_build ''1.2.0'' [qt5, qt6] ''local'', Builder_build ''1.2.0'' [qt5, qt6] ''ankiweb'']"
proof -
  have h1: "args_target args0 = Some ''all''" by (simp add: args0_def)
  have h2: "args_dist args0 = Some ''all''" by (simp add: args0_def)
  have h3: "Config env0 = Inr config0" by (simp add: env0_fields)
  have h4: "''anki21'' \<in> set (cfg_targets config0) \<or> cfg_targets config0 = [''qt5'', ''qt6'']"
    by (simp add: config0_def)
  have h5: "AddonBuilder env0 (args_version args0) = Inr ''1.2.0''" by (simp add: env0_fields)
  have h6: "fst (build env0 args0 world0) = Inr PyNone" by (simp add: build_env0_all)
  have w: "calls_of (trace world0) = []" by (simp add: world0_def)
  from h1 h2 h3 h4 h5 h6 w expand_all_all_by_channel [OF h1 h2 h3 h4 h5 h6]
  show ?thesis by simp
qed

text \<open>
  C2, as stated, says that after an error in one unit every subsequent unit is still
  attempted. With a builder whose \<^verbatim>\<open>build_dist\<close> raises for the local channel,
  \<^verbatim>\<open>build_dist\<close> with the channel selector \<^verbatim>\<open>all\<close> ends with that exception after the
  first task; the call for ankiweb is never made.
\<close>

theorem failing_task_stops_the_run_counterexample:
  "fst (build_dist env_failing args_all_build_dist world0) = Inl (Raised ''TransformFailed'') \<and>
   trace (snd (build_dist env_failing args_all_build_dist world0)) =
     [Info (CHR 0x0A # ''=== Build task 1/2 ===''),
      Call (Builder_build_dist ''1.2.0'' [qt5, qt6] ''local'')] \<and>
   Call (Builder_build_dist ''1.2.0'' [qt5, qt6] ''ankiweb'') \<notin>
     set (trace (snd (build_dist env_failing args_all_build_dist world0)))"
  by (simp add: build_dist_def env_failing_fields get_qt_versions_config0 get_dists_all
      args_all_build_dist_def args0_def world0_def logging_info_def invoke_def build_task_msg_1_2)

text \<open>
  C2, amended. When \<^verbatim>\<open>build\<close>, \<^verbatim>\<open>build_dist\<close> or \<^verbatim>\<open>package_dist\<close> processes several
  tasks in sequence and the builder call of task \<open>n + 1\<close> is the first that raises, the
  invocation ends there with that exception: the tasks before it have been logged and
  called, the last line logged is the progress line \<open>n + 1\<close>/total of the failing task,
  which so identifies it, its call is the last event, the disk is the one that call
  leaves, and no subsequent task is logged or attempted. Conversely, an exception the
  invocation ends with is always that of the first builder call that raises.
\<close>

theorem failing_task_stops_the_run:
  assumes "get_qt_versions (Config env) a = Inr qvs"
      and "get_dists a = Inr dists"
      and "AddonBuilder env (args_version a) = Inr b"
  shows "(first_raise env (map (Builder_build b qvs) dists) (disk w) = Some (n, e, d') \<longrightarrow>
            n < length dists \<and>
            build env a w =
              (Inl e,
               w\<lparr>trace := trace w @ task_events build_task_msg (Builder_build b qvs) dists n @
                    [Info (build_task_msg (n + 1) (length dists)),
                     Call (Builder_build b qvs (dists ! n))],
                 disk := d'\<rparr>)) \<and>
         (first_raise env (map (Builder_build_dist b qvs) dists) (disk w) = Some (n, e, d') \<longrightarrow>
            n < length dists \<and>
            build_dist env a w =
              (Inl e,
               w\<lparr>trace := trace w @ task_events build_task_msg (Builder_build_dist b qvs) dists n @
                    [Info (build_task_msg (n + 1) (length dists)),
                     Call (Builder_build_dist b qvs (dists ! n))],
                 disk := d'\<rparr>)) \<and>
         (first_raise env (map (Builder_package_dist b qvs) dists) (disk w) = Some (n, e, d') \<longrightarrow>
            n < length dists \<and>
            package_dist env a w =
              (Inl e,
               w\<lparr>trace := trace w @ task_events build_task_msg (Builder_package_dist b qvs) dists n @
                    [Info (build_task_msg (n + 1) (length dists)),
                     Call (Builder_package_dist b qvs (dists ! n))],
                 disk := d'\<rparr>)) \<and>
         (\<forall>x. fst (build env a w) = Inl x \<longrightarrow>
            (\<exists>k d. first_raise env (map (Builder_build b qvs) dists) (disk w) = Some (k, x, d))) \<and>
         (\<forall>x. fst (build_dist env a w) = Inl x \<longrightarrow>
            (\<exists>k d. first_raise env (map (Builder_build_dist b qvs) dists) (disk w) = Some (k, x, d))) \<and>
         (\<forall>x. fst (package_dist env a w) = Inl x \<longrightarrow>
            (\<exists>k d. first_raise env (map (Builder_package_dist b qvs) dists) (disk w) = Some (k, x, d)))"
proof -
  have fwd: "first_raise env (map mk dists) (disk w) = Some (n, e, d') \<longrightarrow>
        n < length dists \<and>
        task_loop env build_task_msg mk 1 (length dists) dists w =
          (Inl e,
           w\<lparr>trace := trace w @ task_events build_task_msg mk dists n @
                [Info (build_task_msg (n + 1) (length dists)), Call (mk (dists ! n))],
             disk := d'\<rparr>)" for mk :: "string \<Rightarrow> 'a call"
  proof
    assume f: "first_raise env (map mk dists) (disk w) = Some (n, e, d')"
    from first_raise_bound [OF f] have n: "n < length dists" by simp
    have "task_loop env build_task_msg mk 1 (length dists) dists w =
          (Inl e, w\<lparr>trace := trace w @ task_events build_task_msg mk dists (Suc n), disk := d'\<rparr>)"
      unfolding task_loop_exact f by simp
    with n show "n < length dists \<and>
        task_loop env build_task_msg mk 1 (length dists) dists w =
          (Inl e,
           w\<lparr>trace := trace w @ task_events build_task_msg mk dists n @
                [Info (build_task_msg (n + 1) (length dists)), Call (mk (dists ! n))],
             disk := d'\<rparr>)"
      by (simp add: task_events_Suc)
  qed
  have bwd: "\<forall>x. fst (task_loop env build_task_msg mk 1 (length dists) dists w) = Inl x \<longrightarrow>
        (\<exists>k d. first_raise env (map mk dists) (disk w) = Some (k, x, d))"
    for mk :: "string \<Rightarrow> 'a call"
    unfolding task_loop_result_exact by (auto split: option.splits)
  have 1: "build env a w =
      task_loop env build_task_msg (Builder_build b qvs) 1 (length dists) dists w"
    using assms by (simp add: build_def)
  have 2: "build_dist env a w =
      task_loop env build_task_msg (Builder_build_dist b qvs) 1 (length dists) dists w"
    using assms by (simp add: build_dist_def)
  have 3: "package_dist env a w =
      task_loop env build_task_msg (Builder_package_dist b qvs) 1 (length dists) dists w"
    using assms by (simp add: package_dist_def)
  show ?thesis
    unfolding 1 2 3 by (intro conjI fwd bwd)
qed

theorem failing_task_stops_the_run_witness:
  "get_qt_versions (Config env_failing) args0 = Inr [qt5, qt6] \<and>
   get_dists args0 = Inr [''local'', ''ankiweb''] \<and>
   AddonBuilder env_failing (args_version args0) = Inr ''1.2.0'' \<and>
   first_raise env_failing (map (Builder_build ''1.2.0'' [qt5, qt6]) [''local'', ''ankiweb''])
     (disk world0) = Some (0, Raised ''TransformFailed'', Map.empty) \<and>
   first_raise env_failing (map (Builder_build_dist ''1.2.0'' [qt5, qt6]) [''local'', ''ankiweb''])
     (disk world0) = Some (0, Raised ''TransformFailed'', Map.empty) \<and>
   first_raise env_failing (map (Builder_package_dist ''1.2.0'' [qt5, qt6]) [''local'', ''ankiweb''])
     (disk world0) = Some (0, Raised ''TransformFailed'', Map.empty) \<and>
   build env_failing args0 world0 =
     (Inl (Raised ''TransformFailed''),
      \<lparr>trace = [Info (CHR 0x0A # ''=== Build task 1/2 ===''),
                 Call (Builder_build ''1.2.0'' [qt5, qt6] ''local'')],
       disk = Map.empty, log_level = None\<rparr>) \<and>
   build_dist env_failing args0 world0 =
     (Inl (Raised ''TransformFailed''),
      \<lparr>trace = [Info (CHR 0x0A # ''=== Build task 1/2 ===''),
                 Call (Builder_build_dist ''1.2.0'' [qt5, qt6] ''local'')],
       disk = Map.empty, log_level = None\<rparr>) \<and>
   package_dist env_failing args0 world0 =
     (Inl (Raised ''TransformFailed''),
      \<lparr>trace = [Info (CHR 0x0A # ''=== Build task 1/2 ===''),
                 Call (Builder_package_dist ''1.2.0'' [qt5, qt6] ''local'')],
       disk = Map.empty, log_level = None\<rparr>)"
proof -
  have h1: "get_qt_versions (Config env_failing) args0 = Inr [qt5, qt6]"
    by (simp add: env_failing_fields get_qt_versions_config0 args0_def)
  have h2: "get_dists args0 = Inr [''local'', ''ankiweb'']"
    by (simp add: get_dists_all args0_def)
  have h3: "AddonBuilder env_failing (args_version args0) = Inr ''1.2.0''"
    by (simp add: env_failing_fields)
  have w: "disk world0 = Map.empty" by (simp add: world0_def)
  have f1: "first_raise env_failing (map (Builder_build ''1.2.0'' [qt5, qt6]) [''local'', ''ankiweb''])
     (disk world0) = Some (0, Raised ''TransformFailed'', Map.empty)"
    using first_raise_failing_local(1) by (simp add: w)
  have f2: "first_raise env_failing (map (Builder_build_dist ''1.2.0'' [qt5, qt6]) [''local'', ''ankiweb''])
     (disk world0) = Some (0, Raised ''TransformFailed'', Map.empty)"
    using first_raise_failing_local(2) by (simp add: w)
  have f3: "first_raise env_failing (map (Builder_package_dist ''1.2.0'' [qt5, qt6]) [''local'', ''ankiweb''])
     (disk world0) = Some (0, Raised ''TransformFailed'', Map.empty)"
    using first_raise_failing_local(3) by (simp add: w)
  note T = failing_task_stops_the_run [OF h1 h2 h3, of world0 0 "Raised ''TransformFailed''" Map.empty]
  note T1 = T [THEN conjunct1, THEN mp, OF f1, THEN conjunct2]
  note T2 = T [THEN conjunct2, THEN conjunct1, THEN mp, OF f2, THEN conjunct2]
  note T3 = T [THEN conjunct2, THEN conjunct2, THEN conjunct1, THEN mp, OF f3, THEN conjunct2]
  have r1: "build env_failing args0 world0 =
     (Inl (Raised ''TransformFailed''),
      \<lparr>trace = [Info (CHR 0x0A # ''=== Build task 1/2 ===''),
                 Call (Builder_build ''1.2.0'' [qt5, qt6] ''local'')],
       disk = Map.empty, log_level = None\<rparr>)"
    unfolding T1 by (simp add: world0_def task_events_def build_task_msg_1_2)
  have r2: "build_dist env_failing args0 world0 =
     (Inl (Raised ''TransformFailed''),
      \<lparr>trace = [Info (CHR 0x0A # ''=== Build task 1/2 ===''),
                 Call (Builder_build_dist ''1.2.0'' [qt5, qt6] ''local'')],
       disk = Map.empty, log_level = None\<rparr>)"
    unfolding T2 by (simp add: world0_def task_events_def build_task_msg_1_2)
  have r3: "package_dist env_failing args0 world0 =
     (Inl (Raised ''TransformFailed''),
      \<lparr>trace = [Info (CHR 0x0A # ''=== Build task 1/2 ===''),
                 Call (Builder_package_dist ''1.2.0'' [qt5, qt6] ''local'')],
       disk = Map.empty, log_level = None\<rparr>)"
    unfolding T3 by (simp add: world0_def task_events_def build_task_msg_1_2)
  show ?thesis
    by (intro conjI h1 h2 h3 f1 f2 f3 r1 r2 r3)
qed

text \<open>
  C3. \<^verbatim>\<open>manifest\<close> with the channel selector \<^verbatim>\<open>all\<close> never calls
  \<^verbatim>\<open>generate_and_write_manifest\<close> and leaves the disk as it is; when the version
  parses and the configuration loads (both happen first), it rejects the selector:
  it prints that \<^verbatim>\<open>all\<close> is not supported as a dist type for the manifest and returns
  \<^verbatim>\<open>False\<close>, which is how \<^verbatim>\<open>cli.py\<close> renders the error AmbiguousChannel.
\<close>

theorem manifest_rejects_all:
  assumes "args_dist a = Some ''all''"
  shows "calls_of (trace (snd (manifest env a w))) = calls_of (trace w) \<and>
         disk (snd (manifest env a w)) = disk w \<and>
         (Git_parse_version env (args_version a) = Inr version \<longrightarrow> Config env = Inr props \<longrightarrow>
            manifest env a w =
              (Inr (PyBool False), w\<lparr>trace := trace w @ [Stdout all_not_supported_msg]\<rparr>))"
  using assms
  by (simp add: manifest_def py_print_def calls_of_append split: sum.splits)

theorem manifest_rejects_all_witness:
  "args_dist (args0\<lparr>args_func := Manifest, args_target := None\<rparr>) = Some ''all'' \<and>
   Git_parse_version env0 (args_version (args0\<lparr>args_func := Manifest, args_target := None\<rparr>)) = Inr ''1.2.0'' \<and>
   Config env0 = Inr config0 \<and>
   manifest env0 (args0\<lparr>args_func := Manifest, args_target := None\<rparr>) world0 =
     (Inr (PyBool False),
      \<lparr>trace = [Stdout all_not_supported_msg], disk = Map.empty, log_level = None\<rparr>)"
proof -
  have h: "args_dist (args0\<lparr>args_func := Manifest, args_target := None\<rparr>) = Some ''all''"
    by (simp add: args0_def)
  have g: "Git_parse_version env0 (args_version (args0\<lparr>args_func := Manifest, args_target := None\<rparr>)) = Inr ''1.2.0''"
    by (simp add: env0_def)
  have c: "Config env0 = Inr config0" by (simp add: env0_def)
  show ?thesis
    using h g c manifest_rejects_all [OF h, of env0 world0 "''1.2.0''" config0]
    by (simp add: world0_def)
qed

text \<open>
  C5. In a valid project root, \<^verbatim>\<open>main\<close> with the target \<^verbatim>\<open>anki21\<close> does what it does with
  the target \<^verbatim>\<open>all\<close>, whatever the sub-command, and prints the deprecation notice
  exactly once: the two runs return the same result and end in the same world, but
  that the notice stands once in the trace, after the copyright line and before all
  that the sub-command does, in which (\<open>post\<close>) the notice does not occur.
\<close>

theorem deprecated_alias_behaves_as_all:
  assumes "path_exists env (PATH_ROOT env @ [''src''])"
      and "path_exists env (PATH_CONFIG env)"
      and "args_target a = Some ''anki21''"
  shows "\<exists>r w' post.
           main env (Parsed (a\<lparr>args_target := Some ''all''\<rparr>)) w = (r, w') \<and>
           trace w' = trace w @ [Stdout (COPYRIGHT_MSG env)] @ post \<and>
           Stdout deprecation_msg \<notin> set post \<and>
           main env (Parsed a) w =
             (r, w'\<lparr>trace := trace w @ [Stdout (COPYRIGHT_MSG env), Stdout deprecation_msg] @ post\<rparr>)"
proof -
  define a' where "a' = a\<lparr>args_target := Some ''all''\<rparr>"
  define f where "f = args_func a'"
  define wl where "wl = set_logging a (py_print (COPYRIGHT_MSG env) w)"
  define we where "we = wl\<lparr>trace := []\<rparr>"
  define pre where "pre = trace w @ [Stdout (COPYRIGHT_MSG env)]"
  obtain r0 w0 where d: "dispatch env f a' we = (r0, w0)"
    by (cases "dispatch env f a' we")
  have twl: "trace wl = pre"
    by (simp add: wl_def pre_def set_logging_def py_print_def)
  have wl_shift: "wl = shift pre we"
    by (simp add: we_def shift_def twl [symmetric])
  have wl_dep: "py_print deprecation_msg wl = shift (pre @ [Stdout deprecation_msg]) we"
    by (simp add: we_def shift_def py_print_def twl)
  have al_all: "argument_aliases a' (set_logging a' (py_print (COPYRIGHT_MSG env) w)) = (a', wl)"
    by (simp add: argument_aliases_def a'_def wl_def set_logging_def)
  have al_alias: "argument_aliases a (set_logging a (py_print (COPYRIGHT_MSG env) w)) =
      (a', py_print deprecation_msg wl)"
    using assms(3) by (simp add: argument_aliases_def a'_def wl_def)
  have d_all: "dispatch env f a' wl = (r0, shift pre w0)"
    unfolding wl_shift by (simp add: shift_dispatch d)
  have d_alias: "dispatch env f a' (py_print deprecation_msg wl) =
      (r0, shift (pre @ [Stdout deprecation_msg]) w0)"
    unfolding wl_dep by (simp add: shift_dispatch d)
  define r :: "error + pyval" where "r = (case r0 of Inl e \<Rightarrow> Inl e | Inr v \<Rightarrow> Inr PyNone)"
  have m_all: "main env (Parsed a') w = (r, shift pre w0)"
    using d_all al_all
    by (simp add: main_valid [OF assms(1,2)] f_def r_def split: sum.splits)
  have m_alias: "main env (Parsed a) w = (r, shift (pre @ [Stdout deprecation_msg]) w0)"
    using d_alias al_alias
    by (simp add: main_valid [OF assms(1,2)] f_def r_def split: sum.splits)
  have no: "Stdout deprecation_msg \<notin> set (trace w0)"
  proof
    assume "Stdout deprecation_msg \<in> set (trace w0)"
    then have "Stdout deprecation_msg \<in> set (trace (snd (dispatch env f a' we)))"
      by (simp add: d)
    from stdout_dispatch [OF this] show False
      by (simp add: we_def deprecation_msg_neq)
  qed
  have "main env (Parsed a') w = (r, shift pre w0) \<and>
        trace (shift pre w0) = trace w @ [Stdout (COPYRIGHT_MSG env)] @ trace w0 \<and>
        Stdout deprecation_msg \<notin> set (trace w0) \<and>
        main env (Parsed a) w =
          (r, (shift pre w0)\<lparr>trace := trace w @ [Stdout (COPYRIGHT_MSG env), Stdout deprecation_msg] @ trace w0\<rparr>)"
    using m_all m_alias no by (simp add: shift_def pre_def)
  then show ?thesis
    unfolding a'_def by blast
qed

theorem deprecated_alias_behaves_as_all_witness:
  "path_exists env0 (PATH_ROOT env0 @ [''src'']) \<and>
   path_exists env0 (PATH_CONFIG env0) \<and>
   args_target args_alias = Some ''anki21'' \<and>
   (\<exists>r w' post.
      main env0 (Parsed (args_alias\<lparr>args_target := Some ''all''\<rparr>)) world0 = (r, w') \<and>
      trace w' = trace world0 @ [Stdout (COPYRIGHT_MSG env0)] @ post \<and>
      Stdout deprecation_msg \<notin> set post \<and>
      main env0 (Parsed args_alias) world0 =
        (r, w'\<lparr>trace := trace world0 @ [Stdout (COPYRIGHT_MSG env0), Stdout deprecation_msg] @ post\<rparr>)) \<and>
   trace (snd (main env0 (Parsed args_alias) world0)) =
     [Stdout ''Anki Add-on Builder'', Stdout deprecation_msg, Info (build_task_msg 1 1),
      Call (Builder_build_dist ''1.2.0'' [qt5, qt6] ''ankiweb'')]"
proof -
  have h1: "path_exists env0 (PATH_ROOT env0 @ [''src''])" by (simp add: env0_fields)
  have h2: "path_exists env0 (PATH_CONFIG env0)" by (simp add: env0_fields)
  have h3: "args_target args_alias = Some ''anki21''" by (simp add: args_alias_def)
  have t: "trace (snd (main env0 (Parsed args_alias) world0)) =
     [Stdout ''Anki Add-on Builder'', Stdout deprecation_msg, Info (build_task_msg 1 1),
      Call (Builder_build_dist ''1.2.0'' [qt5, qt6] ''ankiweb'')]"
    by (simp add: main_def Let_def env0_fields args_alias_def world0_def validate_cwd_def
        py_print_def set_logging_def argument_aliases_def build_dist_def
        get_qt_versions_config0 get_dists_def logging_info_def invoke_def)
  from h1 h2 h3 t deprecated_alias_behaves_as_all [OF h1 h2 h3, of world0]
  show ?thesis by blast
qed

text \<open>
  C6, as stated, says that the manifest is written into the module directory of the
  staged tree. \<^verbatim>\<open>manifest\<close> passes the directory \<^verbatim>\<open>PATH_ROOT / "src" / module_name\<close>:
  on a disk where nothing has been staged, a successful run writes the manifest of
  the module \<^verbatim>\<open>demo\<close> to \<^verbatim>\<open>proj/src/demo\<close>, which is not under \<^verbatim>\<open>proj/build/dist\<close>.
\<close>

theorem manifest_target_counterexample:
  "fst (manifest env0 args_manifest world0) = Inr PyNone \<and>
   calls_of (trace (snd (manifest env0 args_manifest world0))) =
     [Generate_and_write_manifest config0 ''1.2.0'' ''local'' [''proj'', ''src'', ''demo'']] \<and>
   disk (snd (manifest env0 args_manifest world0)) =
     [[''proj'', ''src'', ''demo'', ''manifest.json''] \<mapsto> ''demo 1.2.0''] \<and>
   PATH_DIST env0 = [''proj'', ''build'', ''dist''] \<and>
   \<not> is_under (PATH_DIST env0) [''proj'', ''src'', ''demo'', ''manifest.json'']"
  by (simp add: manifest_def env0_fields args_manifest_def world0_def invoke_def
      write_manifest_spec_def demo_synth_def config0_def PATH_DIST_def is_under_def)

text \<open>
  C6, amended. A successful run of \<^verbatim>\<open>manifest\<close> (channel not \<^verbatim>\<open>all\<close>, it returns
  \<^verbatim>\<open>None\<close>) makes one call of \<^verbatim>\<open>generate_and_write_manifest\<close>, with the loaded
  properties, the parsed version, the channel, and the module directory of the
  project's source tree, \<^verbatim>\<open>PATH_ROOT / "src" / module_name\<close>, as target. With the write
  as the spec describes it, the disk afterwards is the disk before with the manifest
  file of that directory set to the synthesized manifest: a prior manifest file there
  is overwritten and no other file changes.
\<close>

theorem manifest_written_into_source_module:
  assumes "\<forall>props v dt dir. run_call env (Generate_and_write_manifest props v dt dir) =
             write_manifest_spec synth fname props v dt dir"
      and "manifest env a w = (Inr PyNone, w')"
  shows "\<exists>props version dt content.
           Config env = Inr props \<and>
           Git_parse_version env (args_version a) = Inr version \<and>
           args_dist a = Some dt \<and> dt \<noteq> ''all'' \<and>
           synth props version dt = Inr content \<and>
           trace w' = trace w @
             [Call (Generate_and_write_manifest props version dt
                (PATH_ROOT env @ [''src''] @ [cfg_module_name props]))] \<and>
           disk w' = (disk w)(PATH_ROOT env @ [''src''] @ [cfg_module_name props] @ [fname] \<mapsto> content)"
  using assms
  by (auto simp: manifest_def invoke_def write_manifest_spec_def
      split: sum.splits option.splits if_splits prod.splits)

theorem manifest_written_into_source_module_witness:
  "(\<forall>props v dt dir. run_call env0 (Generate_and_write_manifest props v dt dir) =
             write_manifest_spec demo_synth ''manifest.json'' props v dt dir) \<and>
   manifest env0 args_manifest world_old_manifest =
     (Inr PyNone, snd (manifest env0 args_manifest world_old_manifest)) \<and>
   (\<exists>props version dt content.
      Config env0 = Inr props \<and>
      Git_parse_version env0 (args_version args_manifest) = Inr version \<and>
      args_dist args_manifest = Some dt \<and> dt \<noteq> ''all'' \<and>
      demo_synth props version dt = Inr content \<and>
      trace (snd (manifest env0 args_manifest world_old_manifest)) =
        trace world_old_manifest @
        [Call (Generate_and_write_manifest props version dt
           (PATH_ROOT env0 @ [''src''] @ [cfg_module_name props]))] \<and>
      disk (snd (manifest env0 args_manifest world_old_manifest)) =
        (disk world_old_manifest)
          (PATH_ROOT env0 @ [''src''] @ [cfg_module_name props] @ [''manifest.json''] \<mapsto> content)) \<and>
   disk world_old_manifest [''proj'', ''src'', ''demo'', ''manifest.json''] = Some ''old'' \<and>
   disk (snd (manifest env0 args_manifest world_old_manifest))
     [''proj'', ''src'', ''demo'', ''manifest.json''] = Some ''demo 1.2.0''"
proof -
  have m: "manifest env0 args_manifest world_old_manifest =
     (Inr PyNone,
      \<lparr>trace = [Call (Generate_and_write_manifest config0 ''1.2.0'' ''local'' [''proj'', ''src'', ''demo''])],
       disk = [[''proj'', ''src'', ''demo'', ''manifest.json''] \<mapsto> ''demo 1.2.0''],
       log_level = None\<rparr>)"
    by (simp add: manifest_def env0_fields args_manifest_def world_old_manifest_def invoke_def
      write_manifest_spec_def demo_synth_def config0_def)
  have h: "manifest env0 args_manifest world_old_manifest =
     (Inr PyNone, snd (manifest env0 args_manifest world_old_manifest))"
    by (simp add: m)
  have o: "disk world_old_manifest [''proj'', ''src'', ''demo'', ''manifest.json''] = Some ''old''"
    by (simp add: world_old_manifest_def)
  have n: "disk (snd (manifest env0 args_manifest world_old_manifest))
     [''proj'', ''src'', ''demo'', ''manifest.json''] = Some ''demo 1.2.0''"
    by (simp add: m)
  show ?thesis
    by (rule conjI [OF env0_manifest_spec
          conjI [OF h conjI [OF manifest_written_into_source_module [OF env0_manifest_spec h]
            conjI [OF o n]]]])
qed

text \<open>
  C7. With \<^verbatim>\<open>AddonBuilder.build\<close> as the spec describes it, for one channel and a target
  selector that resolves, \<^verbatim>\<open>build\<close> leaves the result and the disk that the three
  commands \<^verbatim>\<open>create_dist\<close>, \<^verbatim>\<open>build_dist\<close>, \<^verbatim>\<open>package_dist\<close> leave when they run as
  three separate processes that share the disk only. Each stage command builds its
  state afresh: what it leaves depends on the world it starts in through the disk
  alone.
\<close>

theorem build_is_three_stage_runs:
  assumes "\<forall>b qvs dt. run_call env (Builder_build b qvs dt) =
             AddonBuilder_build_spec (run_call env) b qvs dt"
      and "args_dist a = Some dt" and "dt \<noteq> ''all''"
      and "get_qt_versions (Config env) a = Inr qvs"
  shows "outcome (build env a w) = separate_stage_runs env a (disk w) \<and>
         outcome (create_dist env a w) = outcome (create_dist env a (fresh (disk w))) \<and>
         outcome (build_dist env a w) = outcome (build_dist env a (fresh (disk w))) \<and>
         outcome (package_dist env a w) = outcome (package_dist env a (fresh (disk w)))"
proof -
  have main_part: "outcome (build env a w) = separate_stage_runs env a (disk w)"
  proof (cases "AddonBuilder env (args_version a)")
    case (Inl e)
    then show ?thesis
      using assms(2-4)
      by (simp add: build_def separate_stage_runs_def create_dist_def get_dists_one fresh_def
          outcome_def)
  next
    case (Inr b)
    have d: "get_dists a = Inr [dt]" using assms(2,3) by (rule get_dists_one)
    obtain r1 d1 where s1: "run_call env (Builder_create_dist b) (disk w) = (r1, d1)"
      by (cases "run_call env (Builder_create_dist b) (disk w)")
    obtain r2 d2 where s2: "run_call env (Builder_build_dist b qvs dt) d1 = (r2, d2)"
      by (cases "run_call env (Builder_build_dist b qvs dt) d1")
    obtain r3 d3 where s3: "run_call env (Builder_package_dist b qvs dt) d2 = (r3, d3)"
      by (cases "run_call env (Builder_package_dist b qvs dt) d2")
    have bb: "run_call env (Builder_build b qvs dt) (disk w) =
        (case r1 of Inl e \<Rightarrow> (Inl e, d1)
         | Inr v1 \<Rightarrow> (case r2 of Inl e \<Rightarrow> (Inl e, d2) | Inr v2 \<Rightarrow> (r3, d3)))"
      using assms(1) s1 s2 s3
      by (simp add: AddonBuilder_build_spec_def split: sum.splits)
    have lhs: "outcome (build env a w) =
        (case r1 of Inl e \<Rightarrow> (Inl e, d1)
         | Inr v1 \<Rightarrow> (case r2 of Inl e \<Rightarrow> (Inl e, d2)
             | Inr v2 \<Rightarrow> (case r3 of Inl e \<Rightarrow> (Inl e, d3) | Inr v3 \<Rightarrow> (Inr PyNone, d3))))"
      using Inr d assms(4) bb
      by (simp add: build_def task_loop_one invoke_result logging_info_def outcome_def
          split: sum.splits)
    have c: "create_dist env a (fresh (disk w)) =
        (case r1 of Inl e \<Rightarrow> Inl e | Inr v \<Rightarrow> Inr PyNone,
         \<lparr>trace = [Call (Builder_create_dist b)], disk = d1, log_level = None\<rparr>)"
      using Inr s1 by (simp add: create_dist_def invoke_result fresh_def split: sum.splits)
    have b2: "build_dist env a (fresh d1) =
        (case r2 of Inl e \<Rightarrow> Inl e | Inr v \<Rightarrow> Inr PyNone,
         \<lparr>trace = [Info (build_task_msg 1 1), Call (Builder_build_dist b qvs dt)],
          disk = d2, log_level = None\<rparr>)"
      using Inr d assms(4) s2
      by (simp add: build_dist_def task_loop_one invoke_result logging_info_def fresh_def
          split: sum.splits)
    have p3: "package_dist env a (fresh d2) =
        (case r3 of Inl e \<Rightarrow> Inl e | Inr v \<Rightarrow> Inr PyNone,
         \<lparr>trace = [Info (build_task_msg 1 1), Call (Builder_package_dist b qvs dt)],
          disk = d3, log_level = None\<rparr>)"
      using Inr d assms(4) s3
      by (simp add: package_dist_def task_loop_one invoke_result logging_info_def fresh_def
          split: sum.splits)
    have rhs: "separate_stage_runs env a (disk w) =
        (case r1 of Inl e \<Rightarrow> (Inl e, d1)
         | Inr v1 \<Rightarrow> (case r2 of Inl e \<Rightarrow> (Inl e, d2)
             | Inr v2 \<Rightarrow> (case r3 of Inl e \<Rightarrow> (Inl e, d3) | Inr v3 \<Rightarrow> (Inr PyNone, d3))))"
      by (simp add: separate_stage_runs_def c b2 p3 split: sum.splits)
    from lhs rhs show ?thesis by simp
  qed
  have c1: "outcome (create_dist env a w) = outcome (create_dist env a (fresh (disk w)))"
    by (rule outcome_create_dist) (simp add: disk_fresh)
  have c2: "outcome (build_dist env a w) = outcome (build_dist env a (fresh (disk w)))"
    by (rule outcome_build_dist) (simp add: disk_fresh)
  have c3: "outcome (package_dist env a w) = outcome (package_dist env a (fresh (disk w)))"
    by (rule outcome_package_dist) (simp add: disk_fresh)
  from main_part c1 c2 c3 show ?thesis by blast
qed

theorem build_is_three_stage_runs_witness:
  "(\<forall>b qvs dt. run_call env0 (Builder_build b qvs dt) =
             AddonBuilder_build_spec (run_call env0) b qvs dt) \<and>
   args_dist args_local = Some ''local'' \<and> ''local'' \<noteq> ''all'' \<and>
   get_qt_versions (Config env0) args_local = Inr [qt5, qt6] \<and>
   separate_stage_runs env0 args_local Map.empty = outcome (build env0 args_local world0) \<and>
   fst (build env0 args_local world0) = Inr PyNone \<and>
   disk (snd (build env0 args_local world0)) [''proj'', ''build'', ''local''] = Some ''local''"
proof -
  have h2: "args_dist args_local = Some ''local''" by (simp add: args_local_def)
  have h3: "''local'' \<noteq> ''all''" by simp
  have h4: "get_qt_versions (Config env0) args_local = Inr [qt5, qt6]"
    by (simp add: env0_fields get_qt_versions_config0 args_local_def)
  have e: "build env0 args_local world0 =
     (Inr PyNone,
      \<lparr>trace = [Info (build_task_msg 1 1), Call (Builder_build ''1.2.0'' [qt5, qt6] ''local'')],
       disk = [[''proj'', ''build'', ''dist'', ''staged''] \<mapsto> ''1.2.0'',
               [''proj'', ''build'', ''dist'', ''built''] \<mapsto> ''local'',
               [''proj'', ''build'', ''local''] \<mapsto> ''local''],
       log_level = None\<rparr>)"
    by (simp add: build_def env0_fields get_qt_versions_config0 get_dists_def
      args_local_def world0_def logging_info_def invoke_def AddonBuilder_build_spec_def)
  have w: "disk world0 = Map.empty" by (simp add: world0_def)
  from build_is_three_stage_runs [OF env0_build_spec h2 h3 h4, of world0]
  have "separate_stage_runs env0 args_local Map.empty = outcome (build env0 args_local world0)"
    by (simp add: w)
  with env0_build_spec h2 h3 h4 show ?thesis
    by (simp add: e)
qed

text \<open>
  C8, as stated, says that a progress line is logged for each unit and that the total
  in it is the number of units. The loops count channels: \<^verbatim>\<open>build\<close> with both selectors
  \<^verbatim>\<open>all\<close> and both variants configured covers four units (variant, channel) with two
  builder calls and logs two lines, with the total 2.
\<close>

theorem progress_line_per_unit_counterexample:
  "concat (map units_of_call (calls_of (trace (snd (build env0 args0 world0))))) =
     [(qt5, ''local''), (qt6, ''local''), (qt5, ''ankiweb''), (qt6, ''ankiweb'')] \<and>
   infos_of (trace (snd (build env0 args0 world0))) =
     [CHR 0x0A # ''=== Build task 1/2 ==='', CHR 0x0A # ''=== Build task 2/2 ===''] \<and>
   length (concat (map units_of_call (calls_of (trace (snd (build env0 args0 world0)))))) = 4 \<and>
   length (infos_of (trace (snd (build env0 args0 world0)))) = 2"
  by (simp add: build_env0_all)

text \<open>
  C8, amended. \<^verbatim>\<open>build\<close>, \<^verbatim>\<open>build_dist\<close> and \<^verbatim>\<open>package_dist\<close> process the channel tasks
  one at a time, each task being one builder call for one channel with the whole list
  of variants. What a run appends to the trace is exactly, for the tasks
  \<open>i = 0, ..., k - 1\<close> in order, the progress line \<^verbatim>\<open>Build task\<close> \<open>i + 1\<close>/total followed by
  the builder call for channel \<open>i\<close>, where total is the number of channel tasks in the
  sequence (not the number of units) and \<open>k\<close> is the number of calls up to and
  including the first that raises, all of them when none raises; at least the first
  task is logged and called. The run returns when no call raises and ends with the
  exception of the first raising call otherwise.
\<close>

theorem progress_line_per_task:
  assumes "get_qt_versions (Config env) a = Inr qvs"
      and "get_dists a = Inr dists"
      and "AddonBuilder env (args_version a) = Inr b"
  shows "trace (snd (build env a w)) =
           trace w @ task_events build_task_msg (Builder_build b qvs) dists
             (calls_until_raise env (map (Builder_build b qvs) dists) (disk w)) \<and>
         trace (snd (build_dist env a w)) =
           trace w @ task_events build_task_msg (Builder_build_dist b qvs) dists
             (calls_until_raise env (map (Builder_build_dist b qvs) dists) (disk w)) \<and>
         trace (snd (package_dist env a w)) =
           trace w @ task_events build_task_msg (Builder_package_dist b qvs) dists
             (calls_until_raise env (map (Builder_package_dist b qvs) dists) (disk w)) \<and>
         infos_of (trace (snd (build env a w))) =
           infos_of (trace w) @
           map (\<lambda>i. build_task_msg (i + 1) (length dists))
             [0..<calls_until_raise env (map (Builder_build b qvs) dists) (disk w)] \<and>
         infos_of (trace (snd (build_dist env a w))) =
           infos_of (trace w) @
           map (\<lambda>i. build_task_msg (i + 1) (length dists))
             [0..<calls_until_raise env (map (Builder_build_dist b qvs) dists) (disk w)] \<and>
         infos_of (trace (snd (package_dist env a w))) =
           infos_of (trace w) @
           map (\<lambda>i. build_task_msg (i + 1) (length dists))
             [0..<calls_until_raise env (map (Builder_package_dist b qvs) dists) (disk w)] \<and>
         0 < calls_until_raise env (map (Builder_build b qvs) dists) (disk w) \<and>
         calls_until_raise env (map (Builder_build b qvs) dists) (disk w) \<le> length dists \<and>
         0 < calls_until_raise env (map (Builder_build_dist b qvs) dists) (disk w) \<and>
         calls_until_raise env (map (Builder_build_dist b qvs) dists) (disk w) \<le> length dists \<and>
         0 < calls_until_raise env (map (Builder_package_dist b qvs) dists) (disk w) \<and>
         calls_until_raise env (map (Builder_package_dist b qvs) dists) (disk w) \<le> length dists \<and>
         fst (build env a w) =
           (case first_raise env (map (Builder_build b qvs) dists) (disk w) of
              None \<Rightarrow> Inr PyNone | Some (n, e, d') \<Rightarrow> Inl e) \<and>
         fst (build_dist env a w) =
           (case first_raise env (map (Builder_build_dist b qvs) dists) (disk w) of
              None \<Rightarrow> Inr PyNone | Some (n, e, d') \<Rightarrow> Inl e) \<and>
         fst (package_dist env a w) =
           (case first_raise env (map (Builder_package_dist b qvs) dists) (disk w) of
              None \<Rightarrow> Inr PyNone | Some (n, e, d') \<Rightarrow> Inl e)"
proof -
  have 1: "build env a w =
      task_loop env build_task_msg (Builder_build b qvs) 1 (length dists) dists w"
    using assms by (simp add: build_def)
  have 2: "build_dist env a w =
      task_loop env build_task_msg (Builder_build_dist b qvs) 1 (length dists) dists w"
    using assms by (simp add: build_dist_def)
  have 3: "package_dist env a w =
      task_loop env build_task_msg (Builder_package_dist b qvs) 1 (length dists) dists w"
    using assms by (simp add: package_dist_def)
  have ne: "dists \<noteq> []" using assms(2) by (rule get_dists_nonempty)
  have i: "infos_of (trace (snd (task_loop env build_task_msg mk 1 (length dists) dists w))) =
      infos_of (trace w) @
      map (\<lambda>i. build_task_msg (i + 1) (length dists))
        [0..<calls_until_raise env (map mk dists) (disk w)]" for mk :: "string \<Rightarrow> 'a call"
    unfolding task_loop_trace_exact by (simp only: infos_of_append infos_of_task_events)
  have p: "0 < calls_until_raise env (map mk dists) (disk w)"
    and q: "calls_until_raise env (map mk dists) (disk w) \<le> length dists"
    for mk :: "string \<Rightarrow> 'a call"
    using calls_until_raise_bounds [of env "map mk dists" "disk w"] ne by simp_all
  show ?thesis
    unfolding 1 2 3
    by (intro conjI task_loop_trace_exact task_loop_result_exact i p q)
qed

theorem progress_line_per_task_witness:
  "get_qt_versions (Config env0) args0 = Inr [qt5, qt6] \<and>
   get_dists args0 = Inr [''local'', ''ankiweb''] \<and>
   AddonBuilder env0 (args_version args0) = Inr ''1.2.0'' \<and>
   calls_until_raise env0 (map (Builder_build ''1.2.0'' [qt5, qt6]) [''local'', ''ankiweb''])
     (disk world0) = 2 \<and>
   trace (snd (build env0 args0 world0)) =
     [Info (CHR 0x0A # ''=== Build task 1/2 ===''),
      Call (Builder_build ''1.2.0'' [qt5, qt6] ''local''),
      Info (CHR 0x0A # ''=== Build task 2/2 ===''),
      Call (Builder_build ''1.2.0'' [qt5, qt6] ''ankiweb'')] \<and>
   infos_of (trace (snd (build env0 args0 world0))) =
     [CHR 0x0A # ''=== Build task 1/2 ==='', CHR 0x0A # ''=== Build task 2/2 ===''] \<and>
   get_qt_versions (Config env_failing) args0 = Inr [qt5, qt6] \<and>
   AddonBuilder env_failing (args_version args0) = Inr ''1.2.0'' \<and>
   calls_until_raise env_failing
     (map (Builder_package_dist ''1.2.0'' [qt5, qt6]) [''local'', ''ankiweb'']) (disk world0) = 1 \<and>
   trace (snd (package_dist env_failing args0 world0)) =
     [Info (CHR 0x0A # ''=== Build task 1/2 ===''),
      Call (Builder_package_dist ''1.2.0'' [qt5, qt6] ''local'')] \<and>
   fst (package_dist env_failing args0 world0) = Inl (Raised ''TransformFailed'')"
proof -
  have h1: "get_qt_versions (Config env0) args0 = Inr [qt5, qt6]"
    by (simp add: env0_fields get_qt_versions_config0 args0_def)
  have h2: "get_dists args0 = Inr [''local'', ''ankiweb'']"
    by (simp add: get_dists_all args0_def)
  have h3: "AddonBuilder env0 (args_version args0) = Inr ''1.2.0''"
    by (simp add: env0_fields)
  have c: "calls_until_raise env0 (map (Builder_build ''1.2.0'' [qt5, qt6]) [''local'', ''ankiweb''])
     (disk world0) = 2"
    using calls_until_raise_env0_build by (simp add: world0_def)
  note T = progress_line_per_task [OF h1 h2 h3, of world0]
  have t: "trace (snd (build env0 args0 world0)) =
     [Info (CHR 0x0A # ''=== Build task 1/2 ===''),
      Call (Builder_build ''1.2.0'' [qt5, qt6] ''local''),
      Info (CHR 0x0A # ''=== Build task 2/2 ===''),
      Call (Builder_build ''1.2.0'' [qt5, qt6] ''ankiweb'')]"
    unfolding T [THEN conjunct1] c
    by (simp add: world0_def task_events_def numeral_2_eq_2 build_task_msg_1_2 build_task_msg_2_2)
  have i: "infos_of (trace (snd (build env0 args0 world0))) =
     [CHR 0x0A # ''=== Build task 1/2 ==='', CHR 0x0A # ''=== Build task 2/2 ==='']"
    unfolding t by simp
  have g1: "get_qt_versions (Config env_failing) args0 = Inr [qt5, qt6]"
    by (simp add: env_failing_fields get_qt_versions_config0 args0_def)
  have g3: "AddonBuilder env_failing (args_version args0) = Inr ''1.2.0''"
    by (simp add: env_failing_fields)
  have f: "first_raise env_failing
      (map (Builder_package_dist ''1.2.0'' [qt5, qt6]) [''local'', ''ankiweb'']) (disk world0) =
      Some (0, Raised ''TransformFailed'', Map.empty)"
    using first_raise_failing_local(3) by (simp add: world0_def)
  have c': "calls_until_raise env_failing
     (map (Builder_package_dist ''1.2.0'' [qt5, qt6]) [''local'', ''ankiweb'']) (disk world0) = 1"
    unfolding calls_until_raise_def f by simp
  note U = progress_line_per_task [OF g1 h2 g3, of world0]
  have t': "trace (snd (package_dist env_failing args0 world0)) =
     [Info (CHR 0x0A # ''=== Build task 1/2 ===''),
      Call (Builder_package_dist ''1.2.0'' [qt5, qt6] ''local'')]"
    unfolding U [THEN conjunct2, THEN conjunct2, THEN conjunct1] c'
    by (simp add: world0_def task_events_def build_task_msg_1_2)
  have r': "fst (package_dist env_failing args0 world0) = Inl (Raised ''TransformFailed'')"
    unfolding U [THEN conjunct2, THEN conjunct2, THEN conjunct2, THEN conjunct2, THEN conjunct2,
        THEN conjunct2, THEN conjunct2, THEN conjunct2, THEN conjunct2, THEN conjunct2,
        THEN conjunct2, THEN conjunct2, THEN conjunct2, THEN conjunct2] f
    by simp
  show ?thesis
    by (intro conjI h1 h2 h3 c t i g1 g3 c' t' r')
qed

text \<open>
  C10. If the \<^verbatim>\<open>src\<close> directory or the configuration file is missing, \<^verbatim>\<open>main\<close>, for a
  command line that parsed, prints the copyright line and the error that names the
  first missing path, and ends with \<^verbatim>\<open>SystemExit(1)\<close>, exit status 1; nothing else
  happens. Whatever \<^verbatim>\<open>parse_args\<close> did, no collaborator is called and the disk is
  untouched: no sub-command runs outside a valid project root.
\<close>

theorem missing_project_file_exits_before_dispatch:
  assumes "\<not> path_exists env (PATH_ROOT env @ [''src'']) \<or> \<not> path_exists env (PATH_CONFIG env)"
  shows "main env (Parsed a) w =
           (Inl (SystemExit 1),
            w\<lparr>trace := trace w @
               [Stdout (COPYRIGHT_MSG env),
                Stdout (''Error: '' @
                  (if \<not> path_exists env (PATH_ROOT env @ [''src'']) then ''src''
                   else path_name (PATH_CONFIG env)) @
                  '' not found. Please run this script from the project root.'')]\<rparr>) \<and>
         exit_status (fst (main env (Parsed a) w)) = 1 \<and>
         calls_of (trace (snd (main env pr w))) = calls_of (trace w) \<and>
         disk (snd (main env pr w)) = disk w"
proof -
  have p: "main env (Parsed a) w =
           (Inl (SystemExit 1),
            w\<lparr>trace := trace w @
               [Stdout (COPYRIGHT_MSG env),
                Stdout (''Error: '' @
                  (if \<not> path_exists env (PATH_ROOT env @ [''src'']) then ''src''
                   else path_name (PATH_CONFIG env)) @
                  '' not found. Please run this script from the project root.'')]\<rparr>)" for a
    unfolding main_def Let_def
    by (simp add: validate_cwd_missing [OF assms] py_print_def)
  have c: "calls_of (trace (snd (main env pr w))) = calls_of (trace w) \<and>
      disk (snd (main env pr w)) = disk w"
  proof (cases pr)
    case (ParseExit n)
    then show ?thesis by (simp add: main_def py_print_def calls_of_append)
  next
    case (Parsed b)
    then show ?thesis by (simp add: p calls_of_append)
  qed
  from p [of a] c show ?thesis by simp
qed

theorem missing_project_file_exits_before_dispatch_witness:
  "path_exists env_no_config (PATH_ROOT env_no_config @ [''src'']) \<and>
   \<not> path_exists env_no_config (PATH_CONFIG env_no_config) \<and>
   main env_no_config (Parsed args0) world0 =
     (Inl (SystemExit 1),
      \<lparr>trace = [Stdout ''Anki Add-on Builder'',
                 Stdout ''Error: addon.json not found. Please run this script from the project root.''],
       disk = Map.empty, log_level = None\<rparr>)"
proof -
  have h: "\<not> path_exists env_no_config (PATH_ROOT env_no_config @ [''src'']) \<or>
    \<not> path_exists env_no_config (PATH_CONFIG env_no_config)"
    by (simp add: env_no_config_def env0_def)
  show ?thesis
    using h missing_project_file_exits_before_dispatch [OF h, of args0 world0]
    by (simp add: env_no_config_def env0_def world0_def path_name_def)
qed

end
